theory Spec2Isabelle
  imports Complex_Main "HOL-Library.Word" "HOL-Library.List_Lexorder"
    "HOL-Library.Product_Lexorder" "HOL-Library.Log_Nat"
begin

unbundle bit_operations_syntax

section \<open>Python strings\<close>

text \<open>
  A Python \<open>str\<close> is a sequence of Unicode code points, so it is modelled as a list of
  natural numbers. A literal of the source is written \<open>ustr ''...''\<close>.
\<close>

type_synonym pystr = "nat list"

definition ustr :: "string \<Rightarrow> pystr" where
  "ustr s = map of_char s"

text \<open>
  \<open>str.isspace\<close> on one code point, as CPython's \<open>_PyUnicode_IsWhitespace\<close> table has
  it; \<open>str.strip()\<close> with no argument removes these from both ends.
\<close>

definition py_isspace :: "nat \<Rightarrow> bool" where
  "py_isspace c \<longleftrightarrow>
     (0x09 \<le> c \<and> c \<le> 0x0D) \<or> (0x1C \<le> c \<and> c \<le> 0x20) \<or> c = 0x85 \<or> c = 0xA0 \<or>
     c = 0x1680 \<or> (0x2000 \<le> c \<and> c \<le> 0x200A) \<or> c = 0x2028 \<or> c = 0x2029 \<or>
     c = 0x202F \<or> c = 0x205F \<or> c = 0x3000"

definition strip :: "pystr \<Rightarrow> pystr" where
  "strip s = rev (dropWhile py_isspace (rev (dropWhile py_isspace s)))"

section \<open>common/embedding.py: normalise_model_name\<close>

text \<open>
  \<^verbatim>\<open>if not raw_model_name: return "default"\<close> and then
  \<^verbatim>\<open>return raw_model_name.strip()\<close>. The argument is \<open>Optional[str]\<close>; a Python
  string is falsy exactly when it is empty.
\<close>

definition normalise_model_name :: "pystr option \<Rightarrow> pystr" where
  "normalise_model_name raw_model_name =
     (case raw_model_name of
        None \<Rightarrow> ustr ''default''
      | Some s \<Rightarrow> if s = [] then ustr ''default'' else strip s)"

datatype embedding_function =
    DefaultEmbeddingFunction
  | SentenceTransformerEmbeddingFunction pystr

text \<open>
  \<open>EmbeddingFunction.name()\<close>, under which the store keeps the function of a collection.
\<close>

fun ef_name :: "embedding_function \<Rightarrow> pystr" where
  "ef_name DefaultEmbeddingFunction = ustr ''default''"
| "ef_name (SentenceTransformerEmbeddingFunction m) = ustr ''sentence_transformer''"

definition build_embedding_function :: "pystr option \<Rightarrow> embedding_function" where
  "build_embedding_function raw_model_name =
     (let model_name = normalise_model_name raw_model_name
      in if model_name = ustr ''default'' then DefaultEmbeddingFunction
         else SentenceTransformerEmbeddingFunction model_name)"

section \<open>Exceptions\<close>

text \<open>
  The exceptions that the modelled code raises or lets through. \<open>StoreError\<close> stands
  for an exception of the vector store's client that the state of the store does not
  decide (connection refused, timeout); \<open>NotFoundError\<close>, \<open>ValueError\<close> and
  \<open>DuplicateIDError\<close> are the client's answers that the model derives from the request
  and the state of the store.
\<close>

datatype py_exn =
    NotFoundError
  | StoreError
  | ChromaConnectionError
  | EmbeddingConfigMismatchError
  | UnicodeEncodeError
  | IndexError
  | ValueError
  | DuplicateIDError
  | ZeroDivisionError

section \<open>Python floats\<close>

text \<open>
  A Python \<open>float\<close> is an IEEE-754 binary64 value: a finite value, which is a rational
  number, an infinity, or NaN. The two zeros are one value here; Python compares them
  equal, and the code below never divides by a zero without raising.

  The result of an arithmetic operation is the exact result rounded to the nearest
  representable value, ties to the even significand (\<open>rne\<close>): for \<open>x\<close> with
  \<open>2^e \<le> \<bar>x\<bar> < 2^(e+1)\<close> the representable values are the multiples of
  \<open>2^(e-52)\<close>, and below \<open>2^(-1022)\<close> (the subnormal range) the multiples of
  \<open>2^(-1074)\<close>. A rounded value above the largest finite value is an infinity.
\<close>

datatype pyfloat = Finite rat | PlusInf | MinusInf | NaN

definition pow2 :: "int \<Rightarrow> rat" where
  "pow2 e = 2 powi e"

text \<open>\<open>ilog2 x\<close> is the exponent \<open>e\<close> with \<open>2^e \<le> x < 2^(e+1)\<close>, for a positive \<open>x\<close>.\<close>

definition ilog2 :: "rat \<Rightarrow> int" where
  "ilog2 x = (if 1 \<le> x then bitlen \<lfloor>x\<rfloor> - 1 else - bitlen (\<lceil>1 / x\<rceil> - 1))"

definition rne :: "rat \<Rightarrow> int" where
  "rne q =
     (let f = \<lfloor>q\<rfloor>; r = q - of_int f
      in if r < 1 / 2 then f
         else if 1 / 2 < r then f + 1
         else if even f then f else f + 1)"

definition expo :: "rat \<Rightarrow> int" where
  "expo x = max (ilog2 \<bar>x\<bar>) (- 1022)"

definition ulp :: "rat \<Rightarrow> rat" where
  "ulp x = pow2 (expo x - 52)"

definition rnd :: "rat \<Rightarrow> rat" where
  "rnd x = (if x = 0 then 0 else ulp x * of_int (rne (x / ulp x)))"

definition max_float :: rat where
  "max_float = (2 ^ 53 - 1) * 2 ^ 971"

definition to_float :: "rat \<Rightarrow> pyfloat" where
  "to_float x =
     (let r = rnd x
      in if max_float < r then PlusInf
         else if r < - max_float then MinusInf
         else Finite r)"

definition is_float64 :: "pyfloat \<Rightarrow> bool" where
  "is_float64 v = (case v of Finite q \<Rightarrow> to_float q = Finite q | _ \<Rightarrow> True)"

text \<open>Addition, and Python's division, which raises on a zero divisor.\<close>

fun fadd :: "pyfloat \<Rightarrow> pyfloat \<Rightarrow> pyfloat" where
  "fadd NaN y = NaN"
| "fadd x NaN = NaN"
| "fadd PlusInf MinusInf = NaN"
| "fadd MinusInf PlusInf = NaN"
| "fadd PlusInf y = PlusInf"
| "fadd MinusInf y = MinusInf"
| "fadd x PlusInf = PlusInf"
| "fadd x MinusInf = MinusInf"
| "fadd (Finite a) (Finite b) = to_float (a + b)"

fun fdiv :: "pyfloat \<Rightarrow> pyfloat \<Rightarrow> py_exn + pyfloat" where
  "fdiv x (Finite b) =
     (if b = 0 then Inl ZeroDivisionError
      else (case x of
              Finite a \<Rightarrow> Inr (to_float (a / b))
            | PlusInf \<Rightarrow> Inr (if 0 < b then PlusInf else MinusInf)
            | MinusInf \<Rightarrow> Inr (if 0 < b then MinusInf else PlusInf)
            | NaN \<Rightarrow> Inr NaN))"
| "fdiv (Finite a) PlusInf = Inr (Finite 0)"
| "fdiv (Finite a) MinusInf = Inr (Finite 0)"
| "fdiv x y = Inr NaN"

text \<open>The comparisons \<open><=\<close> and \<open><\<close>.\<close>

fun fle :: "pyfloat \<Rightarrow> pyfloat \<Rightarrow> bool" where
  "fle NaN y = False"
| "fle x NaN = False"
| "fle MinusInf y = True"
| "fle x PlusInf = True"
| "fle PlusInf y = False"
| "fle x MinusInf = False"
| "fle (Finite a) (Finite b) = (a \<le> b)"

definition flt :: "pyfloat \<Rightarrow> pyfloat \<Rightarrow> bool" where
  "flt x y \<longleftrightarrow> fle x y \<and> \<not> fle y x"

section \<open>json.dumps on a dictionary of strings\<close>

text \<open>
  \<open>json.dumps(d, sort_keys=True)\<close> with the default \<open>ensure_ascii=True\<close> and the default
  separators \<open>', '\<close> and \<open>': '\<close>. A string is written between double quotes; the
  backslash, the double quote and every code point outside \<open>' '..'~'\<close> are escaped
  (\<open>py_encode_basestring_ascii\<close>): the short escapes for 8, 9, 10, 12, 13, otherwise
  a backslash, \<open>u\<close> and four hexadecimal digits, a code point from \<open>0x10000\<close> on as
  a surrogate pair. The backslash is code point \<open>0x5C\<close>, the double quote \<open>0x22\<close>.
\<close>

definition hexdigit :: "nat \<Rightarrow> nat" where
  "hexdigit d = (if d < 10 then 48 + d else 87 + d)"

definition hex4 :: "nat \<Rightarrow> pystr" where
  "hex4 n = [hexdigit (n div 4096 mod 16), hexdigit (n div 256 mod 16),
             hexdigit (n div 16 mod 16), hexdigit (n mod 16)]"

definition escape_char :: "nat \<Rightarrow> pystr" where
  "escape_char c =
     (if c = 0x5C then [0x5C, 0x5C]
      else if c = 0x22 then [0x5C, 0x22]
      else if c = 0x08 then [0x5C, 0x62]
      else if c = 0x0C then [0x5C, 0x66]
      else if c = 0x0A then [0x5C, 0x6E]
      else if c = 0x0D then [0x5C, 0x72]
      else if c = 0x09 then [0x5C, 0x74]
      else if 0x20 \<le> c \<and> c \<le> 0x7E then [c]
      else if c < 0x10000 then [0x5C, 0x75] @ hex4 c
      else (let n = c - 0x10000;
                s1 = 0xD800 + (n div 1024) mod 1024;
                s2 = 0xDC00 + n mod 1024
            in [0x5C, 0x75] @ hex4 s1 @ [0x5C, 0x75] @ hex4 s2))"

definition py_encode_basestring_ascii :: "pystr \<Rightarrow> pystr" where
  "py_encode_basestring_ascii s = [0x22] @ concat (map escape_char s) @ [0x22]"

fun join :: "pystr \<Rightarrow> pystr list \<Rightarrow> pystr" where
  "join sep [] = []"
| "join sep [x] = x"
| "join sep (x # y # ys) = x @ sep @ join sep (y # ys)"

text \<open>
  The dictionary is an association list in insertion order, its keys distinct.
  With \<open>sort_keys\<close> the encoder iterates over \<open>sorted(dct.items())\<close>: the pairs in
  Python's tuple order, strings compared code point by code point.
\<close>

definition json_dumps :: "(pystr \<times> pystr) list \<Rightarrow> bool \<Rightarrow> pystr" where
  "json_dumps dct sort_keys =
     (let items = (if sort_keys then sort dct else dct)
      in ustr ''{'' @
         join (ustr '', '')
           (map (\<lambda>(k, v). py_encode_basestring_ascii k @ ustr '': '' @
                           py_encode_basestring_ascii v) items) @
         ustr ''}'')"

section \<open>str.encode("utf-8")\<close>

type_synonym byte = "8 word"

text \<open>
  One code point to its UTF-8 bytes. A surrogate (\<open>0xD800..0xDFFF\<close>) has no encoding:
  Python raises \<open>UnicodeEncodeError\<close>. A Python string holds no code point above
  \<open>0x10FFFF\<close>; the model refuses such a number in the same way.
\<close>

definition utf8_char :: "nat \<Rightarrow> byte list option" where
  "utf8_char c =
     (if c < 0x80 then Some [of_nat c]
      else if c < 0x800 then Some [of_nat (0xC0 + c div 64), of_nat (0x80 + c mod 64)]
      else if 0xD800 \<le> c \<and> c \<le> 0xDFFF then None
      else if c < 0x10000 then
        Some [of_nat (0xE0 + c div 4096), of_nat (0x80 + c div 64 mod 64),
              of_nat (0x80 + c mod 64)]
      else if c \<le> 0x10FFFF then
        Some [of_nat (0xF0 + c div 262144), of_nat (0x80 + c div 4096 mod 64),
              of_nat (0x80 + c div 64 mod 64), of_nat (0x80 + c mod 64)]
      else None)"

fun encode_utf8 :: "pystr \<Rightarrow> py_exn + byte list" where
  "encode_utf8 [] = Inr []"
| "encode_utf8 (c # cs) =
     (case utf8_char c of
        None \<Rightarrow> Inl UnicodeEncodeError
      | Some bs \<Rightarrow> (case encode_utf8 cs of Inl e \<Rightarrow> Inl e | Inr rest \<Rightarrow> Inr (bs @ rest)))"

section \<open>hashlib.sha256\<close>

text \<open>SHA-256 as FIPS 180-4 defines it, on 32-bit words.\<close>

type_synonym u32 = "32 word"

definition K256 :: "u32 list" where
  "K256 =
    [0x428A2F98, 0x71374491, 0xB5C0FBCF, 0xE9B5DBA5,
     0x3956C25B, 0x59F111F1, 0x923F82A4, 0xAB1C5ED5,
     0xD807AA98, 0x12835B01, 0x243185BE, 0x550C7DC3,
     0x72BE5D74, 0x80DEB1FE, 0x9BDC06A7, 0xC19BF174,
     0xE49B69C1, 0xEFBE4786, 0x0FC19DC6, 0x240CA1CC,
     0x2DE92C6F, 0x4A7484AA, 0x5CB0A9DC, 0x76F988DA,
     0x983E5152, 0xA831C66D, 0xB00327C8, 0xBF597FC7,
     0xC6E00BF3, 0xD5A79147, 0x06CA6351, 0x14292967,
     0x27B70A85, 0x2E1B2138, 0x4D2C6DFC, 0x53380D13,
     0x650A7354, 0x766A0ABB, 0x81C2C92E, 0x92722C85,
     0xA2BFE8A1, 0xA81A664B, 0xC24B8B70, 0xC76C51A3,
     0xD192E819, 0xD6990624, 0xF40E3585, 0x106AA070,
     0x19A4C116, 0x1E376C08, 0x2748774C, 0x34B0BCB5,
     0x391C0CB3, 0x4ED8AA4A, 0x5B9CCA4F, 0x682E6FF3,
     0x748F82EE, 0x78A5636F, 0x84C87814, 0x8CC70208,
     0x90BEFFFA, 0xA4506CEB, 0xBEF9A3F7, 0xC67178F2]"

type_synonym sha_state = "u32 \<times> u32 \<times> u32 \<times> u32 \<times> u32 \<times> u32 \<times> u32 \<times> u32"

definition H256 :: sha_state where
  "H256 = (0x6A09E667, 0xBB67AE85, 0x3C6EF372, 0xA54FF53A,
           0x510E527F, 0x9B05688C, 0x1F83D9AB, 0x5BE0CD19)"

definition Ch :: "u32 \<Rightarrow> u32 \<Rightarrow> u32 \<Rightarrow> u32" where
  "Ch x y z = (x AND y) XOR (NOT x AND z)"

definition Maj :: "u32 \<Rightarrow> u32 \<Rightarrow> u32 \<Rightarrow> u32" where
  "Maj x y z = (x AND y) XOR (x AND z) XOR (y AND z)"

definition bsig0 :: "u32 \<Rightarrow> u32" where
  "bsig0 x = word_rotr 2 x XOR word_rotr 13 x XOR word_rotr 22 x"

definition bsig1 :: "u32 \<Rightarrow> u32" where
  "bsig1 x = word_rotr 6 x XOR word_rotr 11 x XOR word_rotr 25 x"

definition ssig0 :: "u32 \<Rightarrow> u32" where
  "ssig0 x = word_rotr 7 x XOR word_rotr 18 x XOR drop_bit 3 x"

definition ssig1 :: "u32 \<Rightarrow> u32" where
  "ssig1 x = word_rotr 17 x XOR word_rotr 19 x XOR drop_bit 10 x"

definition be32 :: "byte list \<Rightarrow> u32" where
  "be32 bs = foldl (\<lambda>acc b. push_bit 8 acc OR ucast b) 0 (take 4 bs)"

definition u32_bytes :: "u32 \<Rightarrow> byte list" where
  "u32_bytes w = [ucast (drop_bit 24 w), ucast (drop_bit 16 w), ucast (drop_bit 8 w), ucast w]"

definition u64_bytes :: "64 word \<Rightarrow> byte list" where
  "u64_bytes w = map (\<lambda>i. ucast (drop_bit (8 * (7 - i)) w)) [0..<8]"

definition sha_pad :: "byte list \<Rightarrow> byte list" where
  "sha_pad msg =
     msg @ [0x80] @ replicate ((119 - length msg mod 64) mod 64) 0 @
     u64_bytes (of_nat (8 * length msg))"

function blocks64 :: "byte list \<Rightarrow> byte list list" where
  "blocks64 bs = (if bs = [] then [] else take 64 bs # blocks64 (drop 64 bs))"
  by pat_completeness auto
termination
  by (relation "measure length") auto

fun block_words :: "nat \<Rightarrow> byte list \<Rightarrow> u32 list" where
  "block_words 0 bs = []"
| "block_words (Suc n) bs = be32 bs # block_words n (drop 4 bs)"

fun expand :: "nat \<Rightarrow> u32 list \<Rightarrow> u32 list" where
  "expand 0 W = W"
| "expand (Suc n) W =
     (let t = length W
      in expand n (W @ [ssig1 (W ! (t - 2)) + W ! (t - 7) + ssig0 (W ! (t - 15)) + W ! (t - 16)]))"

fun sha_round :: "u32 \<times> u32 \<Rightarrow> sha_state \<Rightarrow> sha_state" where
  "sha_round (k, w) (a, b, c, d, e, f, g, h) =
     (let T1 = h + bsig1 e + Ch e f g + k + w;
          T2 = bsig0 a + Maj a b c
      in (T1 + T2, a, b, c, d + T1, e, f, g))"

fun add_state :: "sha_state \<Rightarrow> sha_state \<Rightarrow> sha_state" where
  "add_state (a, b, c, d, e, f, g, h) (a', b', c', d', e', f', g', h') =
     (a + a', b + b', c + c', d + d', e + e', f + f', g + g', h + h')"

definition compress :: "byte list \<Rightarrow> sha_state \<Rightarrow> sha_state" where
  "compress block H = add_state H (fold sha_round (zip K256 (expand 48 (block_words 16 block))) H)"

fun state_bytes :: "sha_state \<Rightarrow> byte list" where
  "state_bytes (a, b, c, d, e, f, g, h) =
     concat (map u32_bytes [a, b, c, d, e, f, g, h])"

definition sha256 :: "byte list \<Rightarrow> byte list" where
  "sha256 msg = state_bytes (fold compress (blocks64 (sha_pad msg)) H256)"

definition hexdigest :: "byte list \<Rightarrow> pystr" where
  "hexdigest bs = concat (map (\<lambda>b. [hexdigit (unat b div 16), hexdigit (unat b mod 16)]) bs)"

section \<open>common/embedding.py: EmbeddingConfig\<close>

record embedding_config =
  model_name :: pystr
  implementation :: pystr
  version :: pystr

text \<open>The dataclass constructor as the callers use it: \<open>implementation\<close> keeps its default.\<close>

definition EmbeddingConfig :: "pystr \<Rightarrow> pystr \<Rightarrow> embedding_config" where
  "EmbeddingConfig m v =
     \<lparr>model_name = m, implementation = ustr ''sentence-transformers'', version = v\<rparr>"

text \<open>
  The property \<open>config_id\<close>: the dictionary literal lists \<open>model_name\<close>, \<open>implementation\<close>,
  \<open>version\<close> in this order; \<open>payload.encode("utf-8")\<close> may raise.
\<close>

definition config_id :: "embedding_config \<Rightarrow> py_exn + pystr" where
  "config_id cfg =
     (let payload =
            json_dumps
              [(ustr ''model_name'', model_name cfg),
               (ustr ''implementation'', implementation cfg),
               (ustr ''version'', version cfg)]
              True
      in case encode_utf8 payload of
           Inl e \<Rightarrow> Inl e
         | Inr bs \<Rightarrow> Inr (take 16 (hexdigest (sha256 bs))))"

section \<open>The vector store\<close>

text \<open>
  The ChromaDB server behind \<open>chromadb.HttpClient\<close> is the environment of the program.
  It is a state: the collections it holds, the log of the requests it has received, and
  a schedule of faults. Every request takes the next entry of the schedule; \<open>True\<close>
  means that this request fails (connection refused, timeout, rejected request) and the
  client raises. An empty schedule means no further fault.

  A collection is kept with its metadata, its records, and the name of the embedding
  function it was created with (\<open>None\<close> for a collection that has no such entry in its
  configuration). A metadata value is a string, an integer, a boolean or a float.
\<close>

datatype metaval = MStr pystr | MInt int | MBool bool | MFloat pyfloat

type_synonym metadata = "(pystr \<times> metaval) list"

text \<open>\<open>common/ingest.py\<close>: the dataclass \<open>Document\<close>.\<close>

record document =
  doc_id :: pystr
  content :: pystr
  doc_metadata :: metadata

record stored_collection =
  sc_name :: pystr
  sc_metadata :: "metadata option"
  sc_records :: "document list"
  sc_embedding_function :: "pystr option"

text \<open>The client-side \<open>Collection\<close> object: the name and the metadata read when it was fetched.\<close>

record collection =
  coll_name :: pystr
  coll_metadata :: "metadata option"

datatype store_call =
    HttpClient
  | GetCollection pystr
  | ListCollections
  | DeleteCollection pystr
  | CreateCollection pystr metadata
  | Add pystr "document list"
  | Query pystr "pystr list" int
  | Heartbeat

record chroma =
  collections :: "stored_collection list"
  faults :: "bool list"
  calls :: "store_call list"
  has_heartbeat :: bool

definition request :: "store_call \<Rightarrow> chroma \<Rightarrow> bool \<times> chroma" where
  "request c s =
     (case faults s of
        [] \<Rightarrow> (False, s\<lparr>calls := calls s @ [c]\<rparr>)
      | f # fs \<Rightarrow> (f, s\<lparr>faults := fs, calls := calls s @ [c]\<rparr>))"

definition next_call_ok :: "chroma \<Rightarrow> bool" where
  "next_call_ok s = (case faults s of [] \<Rightarrow> True | f # fs \<Rightarrow> \<not> f)"

text \<open>The store after it has received one more request.\<close>

definition served :: "store_call \<Rightarrow> chroma \<Rightarrow> chroma" where
  "served c s = s\<lparr>faults := tl (faults s), calls := calls s @ [c]\<rparr>"

definition handle :: "stored_collection \<Rightarrow> collection" where
  "handle sc = \<lparr>coll_name = sc_name sc, coll_metadata = sc_metadata sc\<rparr>"


definition http_client :: "chroma \<Rightarrow> (py_exn + unit) \<times> chroma" where
  "http_client s =
     (let (failed, s') = request HttpClient s
      in if failed then (Inl StoreError, s') else (Inr (), s'))"

definition heartbeat :: "chroma \<Rightarrow> (py_exn + unit) \<times> chroma" where
  "heartbeat s =
     (let (failed, s') = request Heartbeat s
      in if failed then (Inl StoreError, s') else (Inr (), s'))"

text \<open>
  \<open>get_collection(name, embedding_function)\<close>. The client compares the function it is
  given with the one kept in the collection's configuration, and raises \<open>ValueError\<close>
  on a conflict: the given function is not the default one and its name is not the name
  kept. A caller that passes no function passes the default one.
\<close>

definition ef_conflict :: "embedding_function \<Rightarrow> pystr option \<Rightarrow> bool" where
  "ef_conflict ef persisted =
     (case persisted of
        None \<Rightarrow> False
      | Some kept \<Rightarrow> ef_name ef \<noteq> ustr ''default'' \<and> kept \<noteq> ef_name ef)"

definition get_collection ::
  "pystr \<Rightarrow> embedding_function \<Rightarrow> chroma \<Rightarrow> (py_exn + collection) \<times> chroma" where
  "get_collection n ef s =
     (let (failed, s') = request (GetCollection n) s
      in if failed then (Inl StoreError, s')
         else (case find (\<lambda>sc. sc_name sc = n) (collections s') of
                 None \<Rightarrow> (Inl NotFoundError, s')
               | Some sc \<Rightarrow>
                   if ef_conflict ef (sc_embedding_function sc) then (Inl ValueError, s')
                   else (Inr (handle sc), s')))"

definition list_collections :: "chroma \<Rightarrow> (py_exn + collection list) \<times> chroma" where
  "list_collections s =
     (let (failed, s') = request ListCollections s
      in if failed then (Inl StoreError, s')
         else (Inr (map handle (collections s')), s'))"

definition delete_collection :: "pystr \<Rightarrow> chroma \<Rightarrow> (py_exn + unit) \<times> chroma" where
  "delete_collection n s =
     (let (failed, s') = request (DeleteCollection n) s
      in if failed then (Inl StoreError, s')
         else if find (\<lambda>sc. sc_name sc = n) (collections s') = None then (Inl NotFoundError, s')
         else (Inr (), s'\<lparr>collections := filter (\<lambda>sc. sc_name sc \<noteq> n) (collections s')\<rparr>))"

text \<open>
  \<open>create_collection(name, metadata, embedding_function)\<close> without \<open>get_or_create\<close>
  refuses a name that exists and an empty metadata dictionary, and keeps the name of the
  function with the new collection.
\<close>

definition create_collection ::
  "pystr \<Rightarrow> metadata \<Rightarrow> embedding_function \<Rightarrow> chroma \<Rightarrow> (py_exn + collection) \<times> chroma" where
  "create_collection n md ef s =
     (let (failed, s') = request (CreateCollection n md) s
      in if failed then (Inl StoreError, s')
         else if md = [] then (Inl ValueError, s')
         else if find (\<lambda>sc. sc_name sc = n) (collections s') \<noteq> None then (Inl StoreError, s')
         else (let sc = \<lparr>sc_name = n, sc_metadata = Some md, sc_records = [],
                          sc_embedding_function = Some (ef_name ef)\<rparr>
               in (Inr (handle sc), s'\<lparr>collections := collections s' @ [sc]\<rparr>)))"

text \<open>
  \<open>collection.add(ids, documents, metadatas)\<close>. The client validates the batch before
  it sends it: an empty batch and an empty metadata dictionary are \<open>ValueError\<close>, an id
  that occurs twice in the batch is \<open>DuplicateIDError\<close>. The store then ignores a record
  whose id the collection already has.
\<close>

definition new_records :: "document list \<Rightarrow> document list \<Rightarrow> document list" where
  "new_records present batch = filter (\<lambda>d. doc_id d \<notin> set (map doc_id present)) batch"

fun add_records :: "pystr \<Rightarrow> document list \<Rightarrow> stored_collection list \<Rightarrow> stored_collection list" where
  "add_records n batch [] = []"
| "add_records n batch (sc # scs) =
     (if sc_name sc = n
      then sc\<lparr>sc_records := sc_records sc @ new_records (sc_records sc) batch\<rparr> # scs
      else sc # add_records n batch scs)"

definition collection_add :: "collection \<Rightarrow> document list \<Rightarrow> chroma \<Rightarrow> (py_exn + unit) \<times> chroma" where
  "collection_add c batch s =
     (if batch = [] \<or> list_ex (\<lambda>d. doc_metadata d = []) batch then (Inl ValueError, s)
      else if \<not> distinct (map doc_id batch) then (Inl DuplicateIDError, s)
      else (let (failed, s') = request (Add (coll_name c) batch) s
            in if failed then (Inl StoreError, s')
               else if find (\<lambda>sc. sc_name sc = coll_name c) (collections s') = None
                 then (Inl StoreError, s')
               else (Inr (),
                     s'\<lparr>collections := add_records (coll_name c) batch (collections s')\<rparr>)))"

text \<open>
  The answer of \<open>collection.query\<close>: a dictionary whose values are one list per query
  text. An absent key is \<open>None\<close>. What the similarity search returns for a collection
  is the store's business: it is a parameter \<open>search\<close> of the model.
\<close>

record query_result =
  qr_ids :: "pystr list list option"
  qr_distances :: "pyfloat list list option"
  qr_metadatas :: "metadata option list list option"
  qr_documents :: "pystr option list list option"

type_synonym search = "stored_collection \<Rightarrow> pystr list \<Rightarrow> int \<Rightarrow> py_exn + query_result"

definition collection_query ::
  "search \<Rightarrow> collection \<Rightarrow> pystr list \<Rightarrow> int \<Rightarrow> chroma \<Rightarrow> (py_exn + query_result) \<times> chroma" where
  "collection_query search c query_texts n_results s =
     (let (failed, s') = request (Query (coll_name c) query_texts n_results) s
      in if failed then (Inl StoreError, s')
         else (case find (\<lambda>sc. sc_name sc = coll_name c) (collections s') of
                 None \<Rightarrow> (Inl StoreError, s')
               | Some sc \<Rightarrow> (search sc query_texts n_results, s')))"

section \<open>common/config.py: Settings\<close>

record settings =
  chroma_host :: pystr
  chroma_port :: int
  chroma_collection :: pystr
  embedding_model_name :: "pystr option"
  embedding_config_version :: pystr
  log_level :: pystr

section \<open>app/rag_service.py: RAGService\<close>

record rag_service =
  rs_settings :: settings
  rs_embedding_config :: embedding_config
  rs_embedding_function :: embedding_function
  rs_collection :: "collection option"
  collection_embedding_config_id :: "metaval option"
  embedding_drift_detected :: bool
  chroma_connected :: bool

text \<open>\<open>__init__\<close>: creating the client may raise; nothing catches it.\<close>

definition RAGService :: "settings \<Rightarrow> chroma \<Rightarrow> (py_exn + rag_service) \<times> chroma" where
  "RAGService st s =
     (case http_client s of
        (Inl e, s') \<Rightarrow> (Inl e, s')
      | (Inr u, s') \<Rightarrow>
          (Inr \<lparr>rs_settings = st,
                rs_embedding_config =
                  EmbeddingConfig (normalise_model_name (embedding_model_name st))
                    (embedding_config_version st),
                rs_embedding_function = build_embedding_function (embedding_model_name st),
                rs_collection = None,
                collection_embedding_config_id = None,
                embedding_drift_detected = False,
                chroma_connected = False\<rparr>, s'))"

text \<open>\<open>collection.metadata or {}\<close> and \<open>metadata.get("embedding_config_id")\<close>.\<close>

definition stored_config_id_of :: "collection \<Rightarrow> metaval option" where
  "stored_config_id_of c =
     (let md = (case coll_metadata c of None \<Rightarrow> [] | Some m \<Rightarrow> if m = [] then [] else m)
      in map_of md (ustr ''embedding_config_id''))"

text \<open>The handler of \<open>except Exception\<close> in \<open>refresh_state\<close>.\<close>

definition refresh_failed :: "rag_service \<Rightarrow> rag_service" where
  "refresh_failed self =
     self\<lparr>rs_collection := None, collection_embedding_config_id := None,
          embedding_drift_detected := False, chroma_connected := False\<rparr>"

definition refresh_state :: "rag_service \<Rightarrow> chroma \<Rightarrow> (py_exn + unit) \<times> rag_service \<times> chroma" where
  "refresh_state self s =
     (case get_collection (chroma_collection (rs_settings self)) (rs_embedding_function self) s of
        (Inl e, s') \<Rightarrow>
          if e = NotFoundError then
            (Inr (),
             self\<lparr>rs_collection := None, collection_embedding_config_id := None,
                  embedding_drift_detected := False, chroma_connected := True\<rparr>, s')
          else (Inl ChromaConnectionError, refresh_failed self, s')
      | (Inr c, s') \<Rightarrow>
          (case stored_config_id_of c of
             None \<Rightarrow>
               (Inr (),
                self\<lparr>rs_collection := Some c, collection_embedding_config_id := None,
                     embedding_drift_detected := True, chroma_connected := True\<rparr>, s')
           | Some stored_config_id \<Rightarrow>
               (case config_id (rs_embedding_config self) of
                  Inl e \<Rightarrow> (Inl ChromaConnectionError, refresh_failed self, s')
                | Inr current \<Rightarrow>
                    (let drift = (stored_config_id \<noteq> MStr current)
                     in (Inr (),
                         self\<lparr>rs_collection := Some c,
                              collection_embedding_config_id := Some stored_config_id,
                              embedding_drift_detected := drift,
                              chroma_connected := True\<rparr>, s')))))"

definition is_ready :: "rag_service \<Rightarrow> bool" where
  "is_ready self \<longleftrightarrow> chroma_connected self \<and> \<not> embedding_drift_detected self"

text \<open>\<open>get_embedding_status\<close>: the dictionary it returns; computing \<open>config_id\<close> may raise.\<close>

record embedding_status =
  es_collection_name :: pystr
  es_current_embedding_model :: pystr
  es_current_embedding_config_id :: pystr
  es_collection_embedding_config_id :: "metaval option"
  es_drift_detected :: bool

definition get_embedding_status :: "rag_service \<Rightarrow> (py_exn + embedding_status) \<times> rag_service" where
  "get_embedding_status self =
     (case config_id (rs_embedding_config self) of
        Inl e \<Rightarrow> (Inl e, self)
      | Inr current \<Rightarrow>
          (Inr \<lparr>es_collection_name = chroma_collection (rs_settings self),
                es_current_embedding_model =
                  normalise_model_name (embedding_model_name (rs_settings self)),
                es_current_embedding_config_id = current,
                es_collection_embedding_config_id = collection_embedding_config_id self,
                es_drift_detected = embedding_drift_detected self\<rparr>, self))"

text \<open>
  \<open>check_chroma_health\<close>: \<open>heartbeat\<close> if the client has it, else
  \<open>list_collections\<close>; any exception gives \<open>False\<close>.
\<close>

definition check_chroma_health :: "rag_service \<Rightarrow> chroma \<Rightarrow> bool \<times> rag_service \<times> chroma" where
  "check_chroma_health self s =
     (if has_heartbeat s then
        (case heartbeat s of
           (Inl e, s') \<Rightarrow> (False, self, s')
         | (Inr u, s') \<Rightarrow> (True, self, s'))
      else
        (case list_collections s of
           (Inl e, s') \<Rightarrow> (False, self, s')
         | (Inr cs, s') \<Rightarrow> (True, self, s')))"

text \<open>The dictionary that \<open>query\<close> returns.\<close>

record rag_result =
  question :: pystr
  ids :: "pystr list"
  distances :: "pyfloat list"
  metadatas :: "metadata option list"
  documents :: "pystr option list"

text \<open>\<open>results.get(key, [[]])[0]\<close>: indexing an empty list raises \<open>IndexError\<close>.\<close>

definition get_first :: "'a list list option \<Rightarrow> py_exn + 'a list" where
  "get_first v =
     (case (case v of None \<Rightarrow> [[]] | Some xss \<Rightarrow> xss) of
        [] \<Rightarrow> Inl IndexError
      | xs # rest \<Rightarrow> Inr xs)"

definition query ::
  "search \<Rightarrow> rag_service \<Rightarrow> pystr \<Rightarrow> int \<Rightarrow> chroma \<Rightarrow> (py_exn + rag_result) \<times> rag_service \<times> chroma" where
  "query search self q k s =
     (if \<not> is_ready self then (Inl EmbeddingConfigMismatchError, self, s)
      else (case rs_collection self of
              None \<Rightarrow>
                (Inr \<lparr>question = q, ids = [], distances = [], metadatas = [], documents = []\<rparr>,
                 self, s)
            | Some c \<Rightarrow>
                (case collection_query search c [q] k s of
                   (Inl e, s') \<Rightarrow> (Inl e, self, s')
                 | (Inr results, s') \<Rightarrow>
                     (case get_first (qr_ids results) of
                        Inl e \<Rightarrow> (Inl e, self, s')
                      | Inr i \<Rightarrow>
                     (case get_first (qr_distances results) of
                        Inl e \<Rightarrow> (Inl e, self, s')
                      | Inr d \<Rightarrow>
                     (case get_first (qr_metadatas results) of
                        Inl e \<Rightarrow> (Inl e, self, s')
                      | Inr m \<Rightarrow>
                     (case get_first (qr_documents results) of
                        Inl e \<Rightarrow> (Inl e, self, s')
                      | Inr dc \<Rightarrow>
                          (Inr \<lparr>question = q, ids = i, distances = d, metadatas = m,
                                documents = dc\<rparr>, self, s'))))))))"

text \<open>
  The public interface of \<open>RAGService\<close>: its methods and its read-only properties. A
  caller holds the object between calls, so a sequence of calls threads the object and
  the store through; an exception ends the call, not the sequence.
\<close>

datatype rag_call =
    CallRefreshState
  | CallQuery pystr int
  | CallGetEmbeddingStatus
  | CallCheckChromaHealth
  | CallIsReady
  | CallChromaConnected
  | CallEmbeddingDriftDetected

datatype rag_return =
    Raised py_exn
  | ReturnedNone
  | ReturnedResult rag_result
  | ReturnedStatus embedding_status
  | ReturnedBool bool

definition invoke ::
  "search \<Rightarrow> rag_call \<Rightarrow> rag_service \<Rightarrow> chroma \<Rightarrow> rag_return \<times> rag_service \<times> chroma" where
  "invoke search c self s =
     (case c of
        CallRefreshState \<Rightarrow>
          (case refresh_state self s of
             (Inl e, self', s') \<Rightarrow> (Raised e, self', s')
           | (Inr u, self', s') \<Rightarrow> (ReturnedNone, self', s'))
      | CallQuery q k \<Rightarrow>
          (case query search self q k s of
             (Inl e, self', s') \<Rightarrow> (Raised e, self', s')
           | (Inr r, self', s') \<Rightarrow> (ReturnedResult r, self', s'))
      | CallGetEmbeddingStatus \<Rightarrow>
          (case get_embedding_status self of
             (Inl e, self') \<Rightarrow> (Raised e, self', s)
           | (Inr st, self') \<Rightarrow> (ReturnedStatus st, self', s))
      | CallCheckChromaHealth \<Rightarrow>
          (case check_chroma_health self s of (b, self', s') \<Rightarrow> (ReturnedBool b, self', s'))
      | CallIsReady \<Rightarrow> (ReturnedBool (is_ready self), self, s)
      | CallChromaConnected \<Rightarrow> (ReturnedBool (chroma_connected self), self, s)
      | CallEmbeddingDriftDetected \<Rightarrow> (ReturnedBool (embedding_drift_detected self), self, s))"

fun run :: "search \<Rightarrow> rag_call list \<Rightarrow> rag_service \<Rightarrow> chroma \<Rightarrow> rag_service \<times> chroma" where
  "run search [] self s = (self, s)"
| "run search (c # cs) self s =
     (case invoke search c self s of (r, self', s') \<Rightarrow> run search cs self' s')"

section \<open>app/main.py: distance_to_score\<close>

text \<open>
  \<open>1.0 / (1.0 + float(d))\<close> on a distance that is a float, and the scores that the list
  comprehension of \<open>query_docs\<close> computes, in the order of the distances.
\<close>

definition distance_to_score :: "pyfloat \<Rightarrow> py_exn + pyfloat" where
  "distance_to_score d = fdiv (Finite 1) (fadd (Finite 1) d)"

fun scores :: "pyfloat list \<Rightarrow> py_exn + pyfloat list" where
  "scores [] = Inr []"
| "scores (d # ds) =
     (case distance_to_score d of
        Inl e \<Rightarrow> Inl e
      | Inr s \<Rightarrow> (case scores ds of Inl e \<Rightarrow> Inl e | Inr ss \<Rightarrow> Inr (s # ss)))"

text \<open>A finite distance that is not negative.\<close>

definition finite_distance :: "pyfloat \<Rightarrow> bool" where
  "finite_distance d = (case d of Finite q \<Rightarrow> 0 \<le> q \<and> q \<le> max_float | _ \<Rightarrow> False)"

section \<open>common/ingest.py: rebuild_collection\<close>

text \<open>
  \<open>_delete_collection_if_exists\<close>: the loop over \<open>client.list_collections()\<close> deletes at
  the first object whose name is the given one, and returns.
\<close>

fun delete_first_match :: "pystr \<Rightarrow> collection list \<Rightarrow> chroma \<Rightarrow> (py_exn + unit) \<times> chroma" where
  "delete_first_match n [] s = (Inr (), s)"
| "delete_first_match n (c # cs) s =
     (if coll_name c = n then delete_collection n s else delete_first_match n cs s)"

definition delete_collection_if_exists :: "pystr \<Rightarrow> chroma \<Rightarrow> (py_exn + unit) \<times> chroma" where
  "delete_collection_if_exists n s =
     (case list_collections s of
        (Inl e, s') \<Rightarrow> (Inl e, s')
      | (Inr cs, s') \<Rightarrow> delete_first_match n cs s')"

text \<open>
  The batch loop \<open>for start in range(0, len(docs), batch_size)\<close> for a positive step:
  \<open>docs[start : start + batch_size]\<close> is added, and a failing \<open>add\<close> ends the loop.
\<close>

function ingest_batches ::
  "collection \<Rightarrow> document list \<Rightarrow> nat \<Rightarrow> nat \<Rightarrow> chroma \<Rightarrow> (py_exn + unit) \<times> chroma" where
  "ingest_batches c docs batch_size start s =
     (if batch_size = 0 \<or> length docs \<le> start then (Inr (), s)
      else (case collection_add c (take batch_size (drop start docs)) s of
              (Inl e, s') \<Rightarrow> (Inl e, s')
            | (Inr u, s') \<Rightarrow> ingest_batches c docs batch_size (start + batch_size) s'))"
  by pat_completeness auto
termination
  by (relation "measure (\<lambda>(c, docs, batch_size, start, s). length docs - start)") auto

text \<open>
  \<open>rebuild_collection\<close>. A step of zero makes \<open>range\<close> raise \<open>ValueError\<close>, after the
  collection has been created; a negative step gives an empty range.
\<close>

definition rebuild_collection ::
  "chroma \<Rightarrow> pystr \<Rightarrow> embedding_function \<Rightarrow> pystr \<Rightarrow> pystr \<Rightarrow> document list \<Rightarrow> int \<Rightarrow>
     (py_exn + collection) \<times> chroma" where
  "rebuild_collection client collection_name embedding_fn embedding_config_id
       embedding_model docs batch_size =
     (case delete_collection_if_exists collection_name client of
        (Inl e, s1) \<Rightarrow> (Inl e, s1)
      | (Inr u, s1) \<Rightarrow>
          (case create_collection collection_name
                  [(ustr ''embedding_config_id'', MStr embedding_config_id),
                   (ustr ''embedding_model_name'', MStr embedding_model)] embedding_fn s1 of
             (Inl e, s2) \<Rightarrow> (Inl e, s2)
           | (Inr c, s2) \<Rightarrow>
               if batch_size = 0 then (Inl ValueError, s2)
               else if batch_size < 0 then (Inr c, s2)
               else (case ingest_batches c docs (nat batch_size) 0 s2 of
                       (Inl e, s3) \<Rightarrow> (Inl e, s3)
                     | (Inr u, s3) \<Rightarrow> (Inr c, s3))))"

section \<open>init_service/init_embeddings.py: main\<close>

text \<open>
  The environment variable \<open>REBUILD_ON_EMBEDDING_MISMATCH\<close> as read by \<open>_bool_env\<close>,
  and what \<open>load_documents_from_path\<close> returns or raises, are inputs. The result is
  the exit code; an exception raised before the \<open>try\<close> blocks leaves \<open>main\<close>.
  \<open>main\<close> fetches the collection without naming an embedding function, which is
  the default one for the client.
\<close>

definition rebuild_and_exit ::
  "settings \<Rightarrow> pystr \<Rightarrow> py_exn + document list \<Rightarrow> chroma \<Rightarrow> (py_exn + int) \<times> chroma" where
  "rebuild_and_exit st current loaded s =
     (case loaded of
        Inl e \<Rightarrow> (Inr 1, s)
      | Inr docs \<Rightarrow>
          (case rebuild_collection s (chroma_collection st)
                  (build_embedding_function (embedding_model_name st)) current
                  (normalise_model_name (embedding_model_name st)) docs 32 of
             (Inl e, s') \<Rightarrow> (Inr 1, s')
           | (Inr c, s') \<Rightarrow> (Inr 0, s')))"

definition main ::
  "settings \<Rightarrow> bool \<Rightarrow> py_exn + document list \<Rightarrow> chroma \<Rightarrow> (py_exn + int) \<times> chroma" where
  "main st rebuild_on_mismatch loaded s =
     (let embedding_model = normalise_model_name (embedding_model_name st);
          embedding_cfg = EmbeddingConfig embedding_model (embedding_config_version st)
      in case config_id embedding_cfg of
           Inl e \<Rightarrow> (Inl e, s)
         | Inr current \<Rightarrow>
             (case http_client s of
                (Inl e, s0) \<Rightarrow> (Inr 1, s0)
              | (Inr u, s0) \<Rightarrow>
                  (case get_collection (chroma_collection st) DefaultEmbeddingFunction s0 of
                     (Inl e, s1) \<Rightarrow>
                       if e = NotFoundError then rebuild_and_exit st current loaded s1
                       else (Inr 1, s1)
                   | (Inr c, s1) \<Rightarrow>
                       if stored_config_id_of c = Some (MStr current) then (Inr 0, s1)
                       else if \<not> rebuild_on_mismatch then (Inr 1, s1)
                       else rebuild_and_exit st current loaded s1)))"

text \<open>The requests that change what the store holds.\<close>

fun is_write :: "store_call \<Rightarrow> bool" where
  "is_write (DeleteCollection n) = True"
| "is_write (CreateCollection n md) = True"
| "is_write (Add n batch) = True"
| "is_write c = False"

section \<open>The canonical serialisation\<close>

text \<open>
  The key-sorted JSON text of a configuration, written out: the three keys in
  alphabetical order, each value as a JSON string.
\<close>

definition canonical_json :: "embedding_config \<Rightarrow> pystr" where
  \<open>canonical_json cfg =
     ustr ''{"implementation": '' @ py_encode_basestring_ascii (implementation cfg) @
     ustr '', "model_name": '' @ py_encode_basestring_ascii (model_name cfg) @
     ustr '', "version": '' @ py_encode_basestring_ascii (version cfg) @ ustr ''}''\<close>

definition is_hex :: "nat \<Rightarrow> bool" where
  "is_hex c \<longleftrightarrow> c \<in> set (ustr ''0123456789abcdef'')"

section \<open>Example values\<close>

text \<open>
  The default settings of \<open>common/config.py\<close>, the service object built from them, and
  a few states of the store on which the properties below are exercised.
\<close>

definition settings0 :: settings where
  "settings0 =
     \<lparr>chroma_host = ustr ''chromadb'', chroma_port = 8000,
      chroma_collection = ustr ''utkrusht_docs'', embedding_model_name = None,
      embedding_config_version = ustr ''v1'', log_level = ustr ''INFO''\<rparr>"

definition service0 :: rag_service where
  "service0 =
     \<lparr>rs_settings = settings0,
      rs_embedding_config = EmbeddingConfig (ustr ''default'') (ustr ''v1''),
      rs_embedding_function = DefaultEmbeddingFunction,
      rs_collection = None,
      collection_embedding_config_id = None,
      embedding_drift_detected = False,
      chroma_connected = False\<rparr>"

definition empty_store :: chroma where
  "empty_store = \<lparr>collections = [], faults = [], calls = [], has_heartbeat = True\<rparr>"


text \<open>A store with the collection of the default settings, created with the default function.\<close>

definition stamped_store :: "metadata option \<Rightarrow> chroma" where
  "stamped_store md =
     \<lparr>collections =
        [\<lparr>sc_name = ustr ''utkrusht_docs'', sc_metadata = md, sc_records = [],
          sc_embedding_function = Some (ustr ''default'')\<rparr>],
      faults = [], calls = [], has_heartbeat = True\<rparr>"

text \<open>Two documents as \<open>load_documents_from_path\<close> builds them.\<close>

definition docs0 :: "document list" where
  "docs0 =
     [\<lparr>doc_id = ustr ''a.md'', content = ustr ''alpha'',
       doc_metadata = [(ustr ''source_path'', MStr (ustr ''/app/data/docs/a.md'')),
                       (ustr ''file_name'', MStr (ustr ''a.md''))]\<rparr>,
      \<lparr>doc_id = ustr ''b.txt'', content = ustr ''beta'',
       doc_metadata = [(ustr ''source_path'', MStr (ustr ''/app/data/docs/b.txt'')),
                       (ustr ''file_name'', MStr (ustr ''b.txt''))]\<rparr>]"

text \<open>
  The service of an installation whose \<open>EMBEDDING_MODEL_NAME\<close> names a
  sentence-transformers model.
\<close>

definition named_settings :: settings where
  "named_settings = settings0\<lparr>embedding_model_name := Some (ustr ''all-MiniLM-L6-v2'')\<rparr>"

definition named_service :: rag_service where
  "named_service =
     \<lparr>rs_settings = named_settings,
      rs_embedding_config = EmbeddingConfig (ustr ''all-MiniLM-L6-v2'') (ustr ''v1''),
      rs_embedding_function = SentenceTransformerEmbeddingFunction (ustr ''all-MiniLM-L6-v2''),
      rs_collection = None,
      collection_embedding_config_id = None,
      embedding_drift_detected = False,
      chroma_connected = False\<rparr>"

text \<open>A collection stamped by another configuration, and the store after its rebuild.\<close>

definition stale_store :: chroma where
  "stale_store = stamped_store (Some [(ustr ''embedding_config_id'', MStr (ustr ''0000000000000000''))])"

definition rebuilt_store :: chroma where
  "rebuilt_store =
     \<lparr>collections =
        [\<lparr>sc_name = ustr ''utkrusht_docs'',
          sc_metadata = Some [(ustr ''embedding_config_id'', MStr (ustr ''57c40a235b0eb29c'')),
                              (ustr ''embedding_model_name'', MStr (ustr ''default''))],
          sc_records = docs0, sc_embedding_function = Some (ustr ''default'')\<rparr>],
      faults = [],
      calls = [ListCollections, DeleteCollection (ustr ''utkrusht_docs''),
               CreateCollection (ustr ''utkrusht_docs'')
                 [(ustr ''embedding_config_id'', MStr (ustr ''57c40a235b0eb29c'')),
                  (ustr ''embedding_model_name'', MStr (ustr ''default''))],
               Add (ustr ''utkrusht_docs'') docs0],
      has_heartbeat = True\<rparr>"

text \<open>The default service after a refresh against the rebuilt store.\<close>

definition ready_service :: rag_service where
  "ready_service =
     service0\<lparr>rs_collection :=
                Some \<lparr>coll_name = ustr ''utkrusht_docs'',
                      coll_metadata =
                        Some [(ustr ''embedding_config_id'', MStr (ustr ''57c40a235b0eb29c'')),
                              (ustr ''embedding_model_name'', MStr (ustr ''default''))]\<rparr>,
              collection_embedding_config_id := Some (MStr (ustr ''57c40a235b0eb29c'')),
              chroma_connected := True\<rparr>"

text \<open>A search that answers with the first \<open>n_results\<close> records, at distance zero.\<close>

definition search0 :: search where
  "search0 sc texts n =
     (let hits = take (nat n) (sc_records sc)
      in Inr \<lparr>qr_ids = Some [map doc_id hits],
              qr_distances = Some [map (\<lambda>d. Finite 0) hits],
              qr_metadatas = Some [map (\<lambda>d. Some (doc_metadata d)) hits],
              qr_documents = Some [map (\<lambda>d. Some (content d)) hits]\<rparr>)"

section \<open>Verified properties\<close>

subsection \<open>Normalisation of the model name\<close>

lemma normalise_model_name_None: "normalise_model_name None = ustr ''default''"
  by (simp add: normalise_model_name_def)

lemma normalise_model_name_empty: "normalise_model_name (Some []) = ustr ''default''"
  by (simp add: normalise_model_name_def)

lemma normalise_model_name_Foo: "normalise_model_name (Some (ustr '' Foo '')) = ustr ''Foo''"
  by (simp add: normalise_model_name_def ustr_def strip_def py_isspace_def)

lemma normalise_model_name_nonempty:
  "s \<noteq> [] \<Longrightarrow> normalise_model_name (Some s) = strip s"
  by (simp add: normalise_model_name_def)

text \<open>
  C2. The claim: \<open>None\<close>, the empty string and the blank string \<open>"   "\<close> are all
  normalised to \<open>"default"\<close>. On the blank string the function does not do that: the
  emptiness test comes before \<open>strip()\<close>, so three spaces pass the test and are then
  trimmed to the empty string, which is not \<open>"default"\<close>, and
  \<open>build_embedding_function\<close> goes on to ask for the sentence-transformers model of
  the empty name.
\<close>

theorem normalise_model_name_blank:
  "normalise_model_name (Some (ustr ''   '')) = [] \<and>
   normalise_model_name (Some (ustr ''   '')) \<noteq> ustr ''default'' \<and>
   build_embedding_function (Some (ustr ''   '')) = SentenceTransformerEmbeddingFunction []"
  by (simp add: build_embedding_function_def normalise_model_name_def ustr_def strip_def
        py_isspace_def)

subsection \<open>The fingerprint\<close>

lemma hexdigit_ascii: "d < 16 \<Longrightarrow> hexdigit d < 128"
  by (simp add: hexdigit_def)

lemma hex4_ascii: "\<forall>x\<in>set (hex4 n). x < 128"
  by (simp add: hex4_def hexdigit_ascii)

lemma escape_char_ascii: "\<forall>x\<in>set (escape_char c). x < 128"
  using hex4_ascii by (auto simp: escape_char_def Let_def)

lemma py_encode_basestring_ascii_ascii: "\<forall>x\<in>set (py_encode_basestring_ascii s). x < 128"
  using escape_char_ascii by (auto simp: py_encode_basestring_ascii_def)

text \<open>A text of ASCII code points always encodes, to one byte each.\<close>

lemma encode_utf8_ascii: "\<forall>c\<in>set s. c < 128 \<Longrightarrow> encode_utf8 s = Inr (map of_nat s)"
  by (induction s) (simp_all add: utf8_char_def)

lemma sort_items:
  "sort [(ustr ''model_name'', m), (ustr ''implementation'', i), (ustr ''version'', v)] =
   [(ustr ''implementation'', i), (ustr ''model_name'', m), (ustr ''version'', v)]"
  by (simp add: ustr_def)

lemma payload_canonical:
  "json_dumps [(ustr ''model_name'', model_name cfg), (ustr ''implementation'', implementation cfg),
      (ustr ''version'', version cfg)] True = canonical_json cfg"
  unfolding json_dumps_def Let_def canonical_json_def sort_items if_True
  by (simp add: ustr_def py_encode_basestring_ascii_def escape_char_def)

lemma canonical_json_ascii: "\<forall>x\<in>set (canonical_json cfg). x < 128"
  using py_encode_basestring_ascii_ascii by (auto simp: canonical_json_def ustr_def)

lemma length_state_bytes: "length (state_bytes s) = 32"
  by (cases s rule: state_bytes.cases) (simp add: u32_bytes_def)

lemma length_sha256: "length (sha256 msg) = 32"
  by (simp add: sha256_def length_state_bytes)

lemma length_hexdigest: "length (hexdigest bs) = 2 * length bs"
  by (induction bs) (simp_all add: hexdigest_def)

lemma hexdigit_is_hex: "d < 16 \<Longrightarrow> is_hex (hexdigit d)"
proof -
  assume "d < 16"
  then have "d \<in> set [0..<16]" by simp
  then show ?thesis
    unfolding is_hex_def hexdigit_def ustr_def by simp auto
qed

lemma hexdigest_is_hex: "\<forall>c\<in>set (hexdigest bs). is_hex c"
proof -
  have "unat b div 16 < 16" for b :: byte
    using unsigned_less [of b, where 'a = nat] by simp
  then show ?thesis
    by (auto simp: hexdigest_def intro!: hexdigit_is_hex)
qed

text \<open>\<open>config_id\<close> never raises: the payload is ASCII, whatever the three fields hold.\<close>

lemma config_id_total:
  "config_id cfg = Inr (take 16 (hexdigest (sha256 (map of_nat (canonical_json cfg)))))"
  unfolding config_id_def Let_def payload_canonical
  by (simp add: encode_utf8_ascii canonical_json_ascii)

text \<open>The model of SHA-256 on the test vector \<open>"abc"\<close> of FIPS 180-4.\<close>

lemma sha256_abc:
  "hexdigest (sha256 (map of_nat (ustr ''abc''))) =
   ustr ''ba7816bf8f01cfea414140de5dae2223b00361a396177a9cb410ff61f20015ad''"
  by code_simp

text \<open>The fingerprint of the default configuration, as the program computes it.\<close>

lemma config_id_default_v1:
  "config_id (EmbeddingConfig (ustr ''default'') (ustr ''v1'')) = Inr (ustr ''57c40a235b0eb29c'')"
  by code_simp

text \<open>
  C5. \<open>config_id\<close> is the first 16 hexadecimal characters of the SHA-256 digest of the
  UTF-8 bytes of the key-sorted JSON text of the three fields. It always succeeds (the
  encoding cannot fail), its result has exactly 16 characters, all of them lower-case
  hexadecimal digits, and two configurations with the same three field values have the
  same fingerprint.
\<close>

theorem config_id_fingerprint:
  "(\<exists>bs. encode_utf8 (canonical_json cfg) = Inr bs \<and>
         config_id cfg = Inr (take 16 (hexdigest (sha256 bs)))) \<and>
   (\<exists>fp. config_id cfg = Inr fp \<and> length fp = 16 \<and> (\<forall>c\<in>set fp. is_hex c)) \<and>
   (\<forall>cfg'. model_name cfg' = model_name cfg \<and> implementation cfg' = implementation cfg \<and>
           version cfg' = version cfg \<longrightarrow> config_id cfg' = config_id cfg)"
proof (intro conjI)
  show "\<exists>bs. encode_utf8 (canonical_json cfg) = Inr bs \<and>
         config_id cfg = Inr (take 16 (hexdigest (sha256 bs)))"
    by (simp add: config_id_total encode_utf8_ascii canonical_json_ascii)
next
  let ?fp = "take 16 (hexdigest (sha256 (map of_nat (canonical_json cfg))))"
  have "length ?fp = 16"
    by (simp add: length_hexdigest length_sha256)
  moreover have "\<forall>c\<in>set ?fp. is_hex c"
    using hexdigest_is_hex by (meson in_set_takeD)
  ultimately show "\<exists>fp. config_id cfg = Inr fp \<and> length fp = 16 \<and> (\<forall>c\<in>set fp. is_hex c)"
    using config_id_total by blast
next
  show "\<forall>cfg'. model_name cfg' = model_name cfg \<and> implementation cfg' = implementation cfg \<and>
           version cfg' = version cfg \<longrightarrow> config_id cfg' = config_id cfg"
    by (simp add: config_id_def)
qed

theorem config_id_fingerprint_witness:
  "length (ustr ''57c40a235b0eb29c'') = 16 \<and>
   list_all is_hex (ustr ''57c40a235b0eb29c'') \<and>
   config_id \<lparr>model_name = ustr ''default'', implementation = ustr ''sentence-transformers'',
              version = ustr ''v1''\<rparr> = Inr (ustr ''57c40a235b0eb29c'')"
  using config_id_fingerprint [of "EmbeddingConfig (ustr ''default'') (ustr ''v1'')"]
  by (simp add: config_id_default_v1 list_all_iff) (simp add: EmbeddingConfig_def)

subsection \<open>Rounding\<close>

lemma pow2_pos: "0 < pow2 e"
  by (simp add: pow2_def)

lemma pow2_add: "pow2 (a + b) = pow2 a * pow2 b"
  by (simp add: pow2_def power_int_add)

lemma pow2_mono: "a \<le> b \<Longrightarrow> pow2 a \<le> pow2 b"
  by (simp add: pow2_def power_int_increasing)

lemma pow2_nat: "pow2 (int n) = 2 ^ n"
  by (simp add: pow2_def)

lemma pow2_of_nat: "0 \<le> e \<Longrightarrow> pow2 e = 2 ^ nat e"
  using pow2_nat [of "nat e"] by simp

lemma pow2_neg: "pow2 (- e) = 1 / pow2 e"
  by (simp add: pow2_def power_int_minus field_simps)

lemma pow2_neg_le: "1 \<le> x * pow2 e \<Longrightarrow> pow2 (- e) \<le> x"
  using pow2_pos [of e] by (simp add: pow2_neg field_simps)

lemma less_pow2_neg: "x * pow2 e < 1 \<Longrightarrow> x < pow2 (- e)"
  using pow2_pos [of e] by (simp add: pow2_neg field_simps)

lemma ilog2_bounds:
  assumes "0 < x"
  shows "pow2 (ilog2 x) \<le> x \<and> x < pow2 (ilog2 x + 1)"
proof (cases "1 \<le> x")
  case True
  let ?n = "\<lfloor>x\<rfloor>"
  from True have n: "0 < ?n" by simp
  from bitlen_bounds [OF n] have lo: "2 ^ nat (bitlen ?n - 1) \<le> ?n" and hi: "?n < 2 ^ nat (bitlen ?n)"
    by auto
  from n have b1: "1 \<le> bitlen ?n"
    by (simp add: bitlen_alt_def)
  have "pow2 (bitlen ?n - 1) = of_int (2 ^ nat (bitlen ?n - 1))"
    using b1 by (simp add: pow2_of_nat)
  also have "\<dots> \<le> of_int ?n" using lo by (simp only: of_int_le_iff)
  also have "\<dots> \<le> x" by simp
  finally have 1: "pow2 (bitlen ?n - 1) \<le> x" .
  from hi have "?n + 1 \<le> 2 ^ nat (bitlen ?n)" by simp
  then have "of_int (?n + 1) \<le> (of_int (2 ^ nat (bitlen ?n)) :: rat)"
    by (simp only: of_int_le_iff)
  moreover have "x < of_int (?n + 1)" by linarith
  moreover have "pow2 (bitlen ?n) = of_int (2 ^ nat (bitlen ?n))"
    using b1 by (simp add: pow2_of_nat)
  ultimately have 2: "x < pow2 (bitlen ?n)" by simp
  from True 1 2 show ?thesis by (simp add: ilog2_def)
next
  case False
  let ?y = "1 / x"
  let ?m = "\<lceil>?y\<rceil> - 1"
  from False assms have y1: "1 < ?y" by (simp add: field_simps)
  then have m: "0 < ?m" by linarith
  from bitlen_bounds [OF m] have lo: "2 ^ nat (bitlen ?m - 1) \<le> ?m" and hi: "?m < 2 ^ nat (bitlen ?m)"
    by auto
  from m have b1: "1 \<le> bitlen ?m"
    by (simp add: bitlen_alt_def)
  have pk: "pow2 (bitlen ?m) = of_int (2 ^ nat (bitlen ?m))"
    using b1 by (simp add: pow2_of_nat)
  have pk1: "pow2 (bitlen ?m - 1) = of_int (2 ^ nat (bitlen ?m - 1))"
    using b1 by (simp add: pow2_of_nat)
  from hi have "\<lceil>?y\<rceil> \<le> 2 ^ nat (bitlen ?m)" by simp
  then have c2: "of_int \<lceil>?y\<rceil> \<le> (of_int (2 ^ nat (bitlen ?m)) :: rat)"
    by (simp only: of_int_le_iff)
  have c1: "?y \<le> of_int \<lceil>?y\<rceil>" by (rule le_of_int_ceiling)
  from order_trans [OF c1 c2] have "?y \<le> pow2 (bitlen ?m)" by (simp only: pk)
  then have "1 \<le> x * pow2 (bitlen ?m)" using assms by (simp add: field_simps)
  then have 1: "pow2 (- bitlen ?m) \<le> x"
    by (rule pow2_neg_le)
  have "of_int ?m < ?y" by linarith
  moreover have "(of_int (2 ^ nat (bitlen ?m - 1)) :: rat) \<le> of_int ?m"
    using lo by (simp only: of_int_le_iff)
  ultimately have "pow2 (bitlen ?m - 1) < ?y" using pk1 by simp
  then have "x * pow2 (bitlen ?m - 1) < 1" using assms by (simp add: field_simps)
  then have "x < pow2 (- (bitlen ?m - 1))"
    by (rule less_pow2_neg)
  moreover have "- (bitlen ?m - 1) = - bitlen ?m + 1" by simp
  ultimately have 2: "x < pow2 (- bitlen ?m + 1)" by (simp only:)
  from False 1 2 show ?thesis by (simp add: ilog2_def)
qed

lemma ilog2_eqI:
  assumes "0 < x" "pow2 e \<le> x" "x < pow2 (e + 1)"
  shows "ilog2 x = e"
proof (rule ccontr)
  assume ne: "ilog2 x \<noteq> e"
  from ilog2_bounds [OF assms(1)] have lo: "pow2 (ilog2 x) \<le> x" and hi: "x < pow2 (ilog2 x + 1)"
    by auto
  show False
  proof (cases "ilog2 x < e")
    case True
    then have "pow2 (ilog2 x + 1) \<le> pow2 e" by (intro pow2_mono) simp
    with hi assms(2) show False by simp
  next
    case False
    with ne have "pow2 (e + 1) \<le> pow2 (ilog2 x)" by (intro pow2_mono) simp
    with lo assms(3) show False by simp
  qed
qed

lemma ilog2_mono:
  assumes "0 < x" "x \<le> y"
  shows "ilog2 x \<le> ilog2 y"
proof (rule ccontr)
  assume "\<not> ilog2 x \<le> ilog2 y"
  then have "pow2 (ilog2 y + 1) \<le> pow2 (ilog2 x)" by (intro pow2_mono) simp
  moreover from assms have "0 < y" by simp
  ultimately show False
    using ilog2_bounds [OF assms(1)] ilog2_bounds [OF \<open>0 < y\<close>] assms(2) by simp
qed


text \<open>Rounding to the nearest integer is monotone and keeps the integers.\<close>

lemma rne_of_int: "rne (of_int n) = n"
  by (simp add: rne_def)

lemma rne_mono:
  assumes "q \<le> q'"
  shows "rne q \<le> rne q'"
proof (cases "\<lfloor>q\<rfloor> = \<lfloor>q'\<rfloor>")
  case True
  with assms show ?thesis
    by (auto simp: rne_def Let_def)
next
  case False
  with assms have "\<lfloor>q\<rfloor> + 1 \<le> \<lfloor>q'\<rfloor>"
    using floor_mono [OF assms] by linarith
  moreover have "rne q \<le> \<lfloor>q\<rfloor> + 1"
    by (simp add: rne_def Let_def)
  moreover have "\<lfloor>q'\<rfloor> \<le> rne q'"
    by (simp add: rne_def Let_def)
  ultimately show ?thesis by linarith
qed

lemma rne_ge_int: "of_int n \<le> q \<Longrightarrow> n \<le> rne q"
  using rne_mono [of "of_int n" q] by (simp add: rne_of_int)

lemma rne_le_int: "q \<le> of_int n \<Longrightarrow> rne q \<le> n"
  using rne_mono [of q "of_int n"] by (simp add: rne_of_int)

lemma rnd_pos: "0 < x \<Longrightarrow> rnd x = pow2 (expo x - 52) * of_int (rne (x / pow2 (expo x - 52)))"
  by (simp add: rnd_def ulp_def)

lemma expo_mono: "0 < x \<Longrightarrow> x \<le> y \<Longrightarrow> expo x \<le> expo y"
  using ilog2_mono [of x y] by (simp add: expo_def)

lemma less_pow2_expo: "0 < x \<Longrightarrow> x < pow2 (expo x + 1)"
proof -
  assume x: "0 < x"
  then have "x < pow2 (ilog2 x + 1)" using ilog2_bounds by blast
  also have "\<dots> \<le> pow2 (expo x + 1)"
    using x by (intro pow2_mono) (simp add: expo_def)
  finally show ?thesis .
qed

lemma pow2_expo_le: "0 < x \<Longrightarrow> - 1022 < expo x \<Longrightarrow> pow2 (expo x) \<le> x"
  using ilog2_bounds [of x] by (simp add: expo_def max_def split: if_splits)

lemma pow2_diff: "pow2 a / pow2 b = pow2 (a - b)"
  using pow2_add [of "a - b" b] pow2_pos [of b] by (simp add: field_simps)

text \<open>Within one binade the rounded value stays between the two powers of two.\<close>

lemma rnd_upper:
  assumes "0 < x"
  shows "rnd x \<le> pow2 (expo x + 1)"
proof -
  let ?u = "pow2 (expo x - 52)"
  have u: "0 < ?u" by (rule pow2_pos)
  have "x / ?u < pow2 (expo x + 1) / ?u"
    using less_pow2_expo [OF assms] u by (simp add: divide_strict_right_mono)
  also have "\<dots> = pow2 53" by (simp add: pow2_diff)
  also have "\<dots> = of_int (2 ^ 53)" by (simp add: pow2_def)
  finally have "rne (x / ?u) \<le> 2 ^ 53" by (intro rne_le_int) simp
  then have "(of_int (rne (x / ?u)) :: rat) \<le> of_int (2 ^ 53)" by (simp only: of_int_le_iff)
  then have "?u * of_int (rne (x / ?u)) \<le> ?u * of_int (2 ^ 53)"
    using u by (simp only: mult_le_cancel_left_pos)
  also have "of_int (2 ^ 53) = pow2 53" by (simp add: pow2_def)
  also have "?u * pow2 53 = pow2 (expo x + 1)"
    by (simp add: pow2_add [symmetric] add.commute)
  finally show ?thesis by (simp add: rnd_pos [OF assms])
qed

lemma rnd_lower:
  assumes "0 < x" "- 1022 < expo x"
  shows "pow2 (expo x) \<le> rnd x"
proof -
  let ?u = "pow2 (expo x - 52)"
  have u: "0 < ?u" by (rule pow2_pos)
  have "pow2 52 = pow2 (expo x) / ?u" by (simp add: pow2_diff)
  also have "\<dots> \<le> x / ?u"
    using pow2_expo_le [OF assms] u by (simp add: divide_right_mono)
  finally have "of_int (2 ^ 52) \<le> x / ?u" by (simp add: pow2_def)
  then have "2 ^ 52 \<le> rne (x / ?u)" by (rule rne_ge_int)
  then have "(of_int (2 ^ 52) :: rat) \<le> of_int (rne (x / ?u))" by (simp only: of_int_le_iff)
  then have "?u * of_int (2 ^ 52) \<le> ?u * of_int (rne (x / ?u))"
    using u by (simp only: mult_le_cancel_left_pos)
  moreover have "of_int (2 ^ 52) = pow2 52" by (simp add: pow2_def)
  moreover have "?u * pow2 52 = pow2 (expo x)"
    by (simp add: pow2_add [symmetric])
  ultimately show ?thesis by (simp add: rnd_pos [OF assms(1)])
qed

text \<open>
  Rounding is monotone on the positive numbers: within a binade by \<open>rne_mono\<close>, across
  binades because a power of two lies between the two rounded values.
\<close>

lemma rnd_mono_pos:
  assumes "0 < x" "x \<le> y"
  shows "rnd x \<le> rnd y"
proof -
  from assms have y: "0 < y" by simp
  from expo_mono [OF assms] consider "expo x = expo y" | "expo x < expo y" by linarith
  then show ?thesis
  proof cases
    case 1
    let ?u = "pow2 (expo y - 52)"
    have u: "0 < ?u" by (rule pow2_pos)
    from assms(2) u have "x / ?u \<le> y / ?u" by (simp add: divide_right_mono)
    then have "rne (x / ?u) \<le> rne (y / ?u)" by (rule rne_mono)
    then have "(of_int (rne (x / ?u)) :: rat) \<le> of_int (rne (y / ?u))" by (simp only: of_int_le_iff)
    then have "?u * of_int (rne (x / ?u)) \<le> ?u * of_int (rne (y / ?u))"
      using u by (simp only: mult_le_cancel_left_pos)
    then show ?thesis by (simp add: rnd_pos [OF assms(1)] rnd_pos [OF y] 1)
  next
    case 2
    have "- 1022 \<le> expo x" by (simp add: expo_def)
    with 2 have "- 1022 < expo y" by simp
    from rnd_lower [OF y this] have "pow2 (expo y) \<le> rnd y" .
    moreover have "pow2 (expo x + 1) \<le> pow2 (expo y)" using 2 by (intro pow2_mono) simp
    moreover note rnd_upper [OF assms(1)]
    ultimately show ?thesis by linarith
  qed
qed

text \<open>Rounding a number whose binade is known.\<close>

lemma rnd_eval:
  assumes "0 < x" "pow2 e \<le> x" "x < pow2 (e + 1)"
  shows "rnd x = pow2 (max e (- 1022) - 52) * of_int (rne (x / pow2 (max e (- 1022) - 52)))"
  using assms by (simp add: rnd_pos expo_def ilog2_eqI [OF assms])

lemma rnd_1: "rnd 1 = 1"
  by (subst rnd_eval [of 1 0]) (simp_all add: pow2_def rne_def)

lemma rnd_tiny: "rnd (pow2 (- 1024)) = pow2 (- 1024)"
  by (subst rnd_eval [of _ "- 1024"]) (simp_all add: pow2_def rne_def)

lemma rne_down: "of_int n \<le> q \<Longrightarrow> q < of_int n + 1 / 2 \<Longrightarrow> rne q = n"
proof -
  assume a: "of_int n \<le> q" "q < of_int n + 1 / 2"
  then have "\<lfloor>q\<rfloor> = n" by linarith
  with a show ?thesis by (simp add: rne_def)
qed

lemma rnd_1_max_float: "rnd (1 + max_float) = max_float"
proof -
  have "rne ((1 + max_float) / pow2 (max 1023 (- 1022) - 52)) = 2 ^ 53 - 1"
    by (rule rne_down) (simp_all add: pow2_def max_float_def)
  then show ?thesis
    by (subst rnd_eval [of _ 1023]) (simp_all add: pow2_def max_float_def)
qed

subsection \<open>The score\<close>

lemma max_float_ge_1: "1 \<le> max_float"
  by (simp add: max_float_def)

lemma max_float_le: "max_float \<le> pow2 1024"
  by (simp add: max_float_def pow2_def)

lemma to_float_finite: "- max_float \<le> rnd x \<Longrightarrow> rnd x \<le> max_float \<Longrightarrow> to_float x = Finite (rnd x)"
  by (simp add: to_float_def)

lemma rnd_1_tiny: "rnd (1 + 1 / 2 ^ 60) = 1"
proof -
  have "rne ((1 + 1 / 2 ^ 60) / pow2 (max 0 (- 1022) - 52)) = 2 ^ 52"
    by (rule rne_down) (simp_all add: pow2_def)
  then show ?thesis
    by (subst rnd_eval [of _ 0]) (simp_all add: pow2_def)
qed

lemma rnd_pow2_60: "rnd (1 / 2 ^ 60) = 1 / 2 ^ 60"
  by (subst rnd_eval [of _ "- 60"]) (simp_all add: pow2_def rne_def)

text \<open>The score of a finite distance between zero and the largest double.\<close>

lemma score_finite:
  assumes "0 \<le> d" "d \<le> max_float"
  shows "distance_to_score (Finite d) = Inr (Finite (rnd (1 / rnd (1 + d))))"
    and "1 \<le> rnd (1 + d)"
    and "pow2 (- 1024) \<le> rnd (1 / rnd (1 + d))"
    and "rnd (1 / rnd (1 + d)) \<le> 1"
proof -
  let ?r = "rnd (1 + d)"
  from assms(1) rnd_mono_pos [of 1 "1 + d"] show r1: "1 \<le> ?r"
    by (simp add: rnd_1)
  from assms rnd_mono_pos [of "1 + d" "1 + max_float"] have rmax: "?r \<le> max_float"
    by (simp add: rnd_1_max_float)
  from r1 rmax max_float_ge_1 have sum: "to_float (1 + d) = Finite ?r"
    by (intro to_float_finite) simp_all
  from r1 have pos: "0 < 1 / ?r" by simp
  from r1 have "1 / ?r \<le> 1" by simp
  with pos rnd_mono_pos [of "1 / ?r" 1] show s1: "rnd (1 / ?r) \<le> 1"
    by (simp add: rnd_1)
  from rmax max_float_le have "?r \<le> pow2 1024" by simp
  with r1 have "1 / pow2 1024 \<le> 1 / ?r"
    by (intro divide_left_mono) (simp_all add: pow2_pos)
  then have "pow2 (- 1024) \<le> 1 / ?r" by (simp add: pow2_neg)
  from rnd_mono_pos [OF pow2_pos this] show s0: "pow2 (- 1024) \<le> rnd (1 / ?r)"
    by (simp add: rnd_tiny)
  from s0 pow2_pos [of "- 1024"] max_float_ge_1 have "- max_float \<le> rnd (1 / ?r)" by linarith
  moreover from s1 max_float_ge_1 have "rnd (1 / ?r) \<le> max_float" by simp
  ultimately have "to_float (1 / ?r) = Finite (rnd (1 / ?r))" by (rule to_float_finite)
  with r1 sum show "distance_to_score (Finite d) = Inr (Finite (rnd (1 / ?r)))"
    by (simp add: distance_to_score_def)
qed

lemma score_mono:
  assumes "0 \<le> a" "a \<le> b"
  shows "rnd (1 / rnd (1 + b)) \<le> rnd (1 / rnd (1 + a))"
proof -
  from assms rnd_mono_pos [of "1 + a" "1 + b"] have le: "rnd (1 + a) \<le> rnd (1 + b)" by simp
  from assms(1) rnd_mono_pos [of 1 "1 + a"] have a1: "1 \<le> rnd (1 + a)" by (simp add: rnd_1)
  with le have "1 / rnd (1 + b) \<le> 1 / rnd (1 + a)"
    by (intro divide_left_mono) simp_all
  moreover from a1 le have "0 < 1 / rnd (1 + b)" by simp
  ultimately show ?thesis by (intro rnd_mono_pos)
qed

lemma scores_sorted:
  assumes "list_all finite_distance ds" "sorted_wrt fle ds"
  shows "\<exists>ss. scores ds = Inr ss \<and> length ss = length ds \<and>
           sorted_wrt (\<lambda>x y. fle y x) ss \<and>
           list_all (\<lambda>s. flt (Finite 0) s \<and> fle s (Finite 1)) ss \<and>
           (\<forall>s\<in>set ss. \<exists>d\<in>set ds. distance_to_score d = Inr s)"
  using assms
proof (induction ds)
  case Nil
  then show ?case by simp
next
  case (Cons d ds)
  from Cons.prems obtain q where d: "d = Finite q" and q: "0 \<le> q" "q \<le> max_float"
    by (cases d) (auto simp: finite_distance_def)
  let ?s = "rnd (1 / rnd (1 + q))"
  note sq = score_finite [OF q]
  from Cons obtain ss where ss: "scores ds = Inr ss" "length ss = length ds"
      "sorted_wrt (\<lambda>x y. fle y x) ss"
      "list_all (\<lambda>s. flt (Finite 0) s \<and> fle s (Finite 1)) ss"
      "\<forall>s\<in>set ss. \<exists>d\<in>set ds. distance_to_score d = Inr s"
    by auto
  have below: "fle s (Finite ?s)" if "s \<in> set ss" for s
  proof -
    from that ss(5) obtain d' where d': "d' \<in> set ds" "distance_to_score d' = Inr s" by blast
    from Cons.prems(1) d' obtain q' where q': "d' = Finite q'" "0 \<le> q'" "q' \<le> max_float"
      by (cases d') (auto simp: finite_distance_def list_all_iff)
    from Cons.prems(2) d'(1) have "fle d d'" by simp
    with d q' have "q \<le> q'" by simp
    from score_mono [OF q(1) this] score_finite(1) [OF q'(2,3)] d'(2) q'(1) show ?thesis
      by auto
  qed
  from sq pow2_pos [of "- 1024"] have range: "flt (Finite 0) (Finite ?s) \<and> fle (Finite ?s) (Finite 1)"
    by (simp add: flt_def)
  from d sq(1) ss below range show ?case
    by (intro exI [of _ "Finite ?s # ss"]) auto
qed

lemma score_0: "distance_to_score (Finite 0) = Inr (Finite 1)"
  using score_finite(1) [of 0] max_float_ge_1 by (simp add: rnd_1)

lemma score_tiny: "distance_to_score (Finite (1 / 2 ^ 60)) = Inr (Finite 1)"
proof -
  have "(1 :: rat) / 2 ^ 60 \<le> max_float" by (simp add: max_float_def)
  from score_finite(1) [OF _ this]
  have "distance_to_score (Finite (1 / 2 ^ 60)) = Inr (Finite (rnd (1 / rnd (1 + 1 / 2 ^ 60))))"
    by simp
  then show ?thesis by (simp only: rnd_1_tiny div_by_1 rnd_1)
qed

lemma score_inf: "distance_to_score PlusInf = Inr (Finite 0)"
  by (simp add: distance_to_score_def)

lemma float_tiny: "is_float64 (Finite (1 / 2 ^ 60))"
proof -
  have "to_float (1 / 2 ^ 60) = Finite (rnd (1 / 2 ^ 60))"
    by (rule to_float_finite; unfold rnd_pow2_60) (simp_all add: max_float_def)
  then show ?thesis
    unfolding is_float64_def rnd_pow2_60 by simp
qed

lemma float_0: "is_float64 (Finite 0)"
  by (simp add: is_float64_def to_float_def rnd_def max_float_def)


lemma score_half:
  "distance_to_score (Finite (1 / 2)) = Inr (Finite (6004799503160661 / 2 ^ 53))"
proof -
  have "rne ((1 + 1 / 2) / pow2 (max 0 (- 1022) - 52)) = 3 * 2 ^ 51"
    by (rule rne_down) (simp_all add: pow2_def)
  then have sum: "rnd (1 + 1 / 2) = 3 / 2"
    by (subst rnd_eval [of _ 0]) (simp_all add: pow2_def)
  have "rne ((2 / 3) / pow2 (max (- 1) (- 1022) - 52)) = 6004799503160661"
    by (rule rne_down) (simp_all add: pow2_def)
  then have quot: "rnd (1 / (3 / 2)) = 6004799503160661 / 2 ^ 53"
    by (subst rnd_eval [of _ "- 1"]) (simp_all add: pow2_def)
  have "(1 :: rat) / 2 \<le> max_float" by (simp add: max_float_def)
  from score_finite(1) [OF _ this]
  have "distance_to_score (Finite (1 / 2)) = Inr (Finite (rnd (1 / rnd (1 + 1 / 2))))"
    by simp
  then show ?thesis by (simp only: sum quot)
qed

text \<open>
  C9. The claim: the score \<open>1 / (1 + d)\<close> is strictly decreasing in the distance and
  lies in \<open>(0, 1]\<close> for every \<open>d \<ge> 0\<close>. The code computes it in binary64. There the
  distances \<open>0\<close> and \<open>2^(-60)\<close>, both floats and the first smaller than the second,
  have the same score \<open>1.0\<close>, because \<open>1.0 + 2^(-60)\<close> rounds to \<open>1.0\<close>: the score is not
  strictly decreasing. And the distance infinity, which is not negative, has the score
  \<open>0.0\<close>, outside \<open>(0, 1]\<close>.
\<close>

theorem distance_to_score_counterexample:
  "is_float64 (Finite 0) \<and> is_float64 (Finite (1 / 2 ^ 60)) \<and>
   flt (Finite 0) (Finite (1 / 2 ^ 60)) \<and>
   distance_to_score (Finite 0) = Inr (Finite 1) \<and>
   distance_to_score (Finite (1 / 2 ^ 60)) = Inr (Finite 1) \<and>
   \<not> flt (Finite 1) (Finite 1) \<and>
   fle (Finite 0) PlusInf \<and>
   distance_to_score PlusInf = Inr (Finite 0) \<and>
   \<not> flt (Finite 0) (Finite 0)"
  by (intro conjI float_0 float_tiny score_0 score_tiny score_inf) (simp_all add: flt_def)

text \<open>
  C9, as the code has it. For finite distances \<open>0 \<le> a \<le> b\<close> the two scores are
  computed without an exception, the score of \<open>b\<close> is at most the score of \<open>a\<close>, and
  both lie in \<open>(0, 1]\<close>. So the scores of a list of finite non-negative distances in
  ascending order are in descending order, equal scores allowed: the conversion never
  inverts two results.
\<close>

theorem distance_to_score_weakly_decreasing:
  "(0 \<le> a \<and> a \<le> b \<and> b \<le> max_float \<longrightarrow>
      (\<exists>sa sb. distance_to_score (Finite a) = Inr (Finite sa) \<and>
               distance_to_score (Finite b) = Inr (Finite sb) \<and>
               sb \<le> sa \<and> 0 < sb \<and> sa \<le> 1)) \<and>
   (list_all finite_distance ds \<and> sorted_wrt fle ds \<longrightarrow>
      (\<exists>ss. scores ds = Inr ss \<and> length ss = length ds \<and>
            sorted_wrt (\<lambda>x y. fle y x) ss \<and>
            list_all (\<lambda>s. flt (Finite 0) s \<and> fle s (Finite 1)) ss))"
proof (intro conjI impI)
  assume h: "0 \<le> a \<and> a \<le> b \<and> b \<le> max_float"
  then have a: "0 \<le> a" "a \<le> max_float" and b: "0 \<le> b" "b \<le> max_float" by simp_all
  from h have "rnd (1 / rnd (1 + b)) \<le> rnd (1 / rnd (1 + a))"
    by (intro score_mono) simp_all
  moreover from score_finite(3) [OF b] pow2_pos [of "- 1024"]
  have "0 < rnd (1 / rnd (1 + b))" by linarith
  moreover note score_finite(1) [OF a] score_finite(1) [OF b] score_finite(4) [OF a]
  ultimately show "\<exists>sa sb. distance_to_score (Finite a) = Inr (Finite sa) \<and>
               distance_to_score (Finite b) = Inr (Finite sb) \<and>
               sb \<le> sa \<and> 0 < sb \<and> sa \<le> 1"
    by blast
next
  assume "list_all finite_distance ds \<and> sorted_wrt fle ds"
  with scores_sorted [of ds]
  show "\<exists>ss. scores ds = Inr ss \<and> length ss = length ds \<and>
            sorted_wrt (\<lambda>x y. fle y x) ss \<and>
            list_all (\<lambda>s. flt (Finite 0) s \<and> fle s (Finite 1)) ss"
    by blast
qed

theorem distance_to_score_weakly_decreasing_witness:
  "(\<exists>sa sb. distance_to_score (Finite (1 / 2)) = Inr (Finite sa) \<and>
            distance_to_score (Finite 3) = Inr (Finite sb) \<and> sb \<le> sa \<and> 0 < sb \<and> sa \<le> 1) \<and>
   (\<exists>ss. scores [Finite 0, Finite (1 / 2 ^ 60), Finite (1 / 2), Finite 3] = Inr ss \<and>
         length ss = length [Finite 0, Finite (1 / 2 ^ 60), Finite (1 / 2), Finite 3] \<and>
         sorted_wrt (\<lambda>x y. fle y x) ss \<and>
         list_all (\<lambda>s. flt (Finite 0) s \<and> fle s (Finite 1)) ss) \<and>
   scores [Finite 0, Finite (1 / 2 ^ 60), Finite (1 / 2)] =
     Inr [Finite 1, Finite 1, Finite (6004799503160661 / 2 ^ 53)]"
proof -
  let ?ds = "[Finite 0, Finite (1 / 2 ^ 60), Finite (1 / 2), Finite 3]"
  have pair: "(0 :: rat) \<le> 1 / 2 \<and> (1 :: rat) / 2 \<le> 3 \<and> 3 \<le> max_float"
    by (simp add: max_float_def)
  have fin: "list_all finite_distance ?ds"
    by (simp add: finite_distance_def max_float_def)
  have asc: "sorted_wrt fle ?ds"
    by simp
  have vals: "scores [Finite 0, Finite (1 / 2 ^ 60), Finite (1 / 2)] =
     Inr [Finite 1, Finite 1, Finite (6004799503160661 / 2 ^ 53)]"
    by (simp only: scores.simps score_0 score_tiny score_half sum.case)
  note inst = distance_to_score_weakly_decreasing [of "1 / 2" 3 ?ds]
  from inst pair have one: "\<exists>sa sb. distance_to_score (Finite (1 / 2)) = Inr (Finite sa) \<and>
            distance_to_score (Finite 3) = Inr (Finite sb) \<and> sb \<le> sa \<and> 0 < sb \<and> sa \<le> 1"
    by blast
  from inst fin asc have many: "\<exists>ss. scores ?ds = Inr ss \<and> length ss = length ?ds \<and>
         sorted_wrt (\<lambda>x y. fle y x) ss \<and>
         list_all (\<lambda>s. flt (Finite 0) s \<and> fle s (Finite 1)) ss"
    by blast
  from one many vals show ?thesis by (intro conjI)
qed


subsection \<open>Requests to the store\<close>

lemma request_ok: "next_call_ok s \<Longrightarrow> request c s = (False, served c s)"
  by (cases "faults s") (auto simp: request_def next_call_ok_def served_def)



lemma get_collection_conflict:
  "next_call_ok s \<Longrightarrow> find (\<lambda>sc. sc_name sc = n) (collections s) = Some sc \<Longrightarrow>
   ef_conflict ef (sc_embedding_function sc) \<Longrightarrow>
   get_collection n ef s = (Inl ValueError, served (GetCollection n) s)"
  by (simp add: get_collection_def request_ok served_def)

lemma get_collection_missing:
  "next_call_ok s \<Longrightarrow> find (\<lambda>sc. sc_name sc = n) (collections s) = None \<Longrightarrow>
   get_collection n ef s = (Inl NotFoundError, served (GetCollection n) s)"
  by (simp add: get_collection_def request_ok served_def)


text \<open>The store never rejects the default function, nor the function a collection was created with.\<close>

lemma ef_conflict_default: "\<not> ef_conflict DefaultEmbeddingFunction kept"
  by (simp add: ef_conflict_def split: option.splits)

lemma ef_conflict_same: "\<not> ef_conflict ef (Some (ef_name ef))"
  by (simp add: ef_conflict_def)

text \<open>The example service is the object that \<open>__init__\<close> builds from the default settings.\<close>

lemma RAGService_settings0:
  "RAGService settings0 empty_store = (Inr service0, empty_store\<lparr>calls := [HttpClient]\<rparr>)"
  by (simp add: RAGService_def http_client_def request_def empty_store_def service0_def
        settings0_def normalise_model_name_def build_embedding_function_def)

subsection \<open>Queries\<close>

text \<open>
  C1. A service that is not connected, or on which drift was detected, refuses the
  query with \<open>EmbeddingConfigMismatchError\<close> and the store is left as it was: no request
  reaches it. A service that is connected and free of drift returns the empty result
  when no collection is attached, again without a request, and otherwise sends exactly
  one query request for the question to the attached collection.
\<close>

theorem query_gating:
  "(\<not> chroma_connected self \<or> embedding_drift_detected self \<longrightarrow>
      query search self q k s = (Inl EmbeddingConfigMismatchError, self, s)) \<and>
   (chroma_connected self \<and> \<not> embedding_drift_detected self \<longrightarrow>
      (case rs_collection self of
         None \<Rightarrow>
           query search self q k s =
             (Inr \<lparr>question = q, ids = [], distances = [], metadatas = [], documents = []\<rparr>, self, s)
       | Some c \<Rightarrow>
           calls (snd (snd (query search self q k s))) = calls s @ [Query (coll_name c) [q] k]))"
  by (auto simp: query_def is_ready_def collection_query_def request_def
           split: option.splits sum.splits prod.splits list.splits)

theorem query_gating_witness:
  "query search0 (service0\<lparr>chroma_connected := True, embedding_drift_detected := True\<rparr>)
     (ustr ''test'') 3 (stamped_store None) =
     (Inl EmbeddingConfigMismatchError,
      service0\<lparr>chroma_connected := True, embedding_drift_detected := True\<rparr>,
      stamped_store None) \<and>
   query search0 service0 (ustr ''test'') 3 (stamped_store None) =
     (Inl EmbeddingConfigMismatchError, service0, stamped_store None) \<and>
   query search0 (service0\<lparr>chroma_connected := True\<rparr>) (ustr ''test'') 3 empty_store =
     (Inr \<lparr>question = ustr ''test'', ids = [], distances = [], metadatas = [], documents = []\<rparr>,
      service0\<lparr>chroma_connected := True\<rparr>, empty_store) \<and>
   calls (snd (snd (query search0
       (service0\<lparr>chroma_connected := True,
                 rs_collection := Some \<lparr>coll_name = ustr ''utkrusht_docs'', coll_metadata = None\<rparr>\<rparr>)
       (ustr ''test'') 3 (stamped_store None)))) =
     [Query (ustr ''utkrusht_docs'') [ustr ''test''] 3]"
  using
    query_gating [of "service0\<lparr>chroma_connected := True, embedding_drift_detected := True\<rparr>"
      search0 "ustr ''test''" 3 "stamped_store None"]
    query_gating [of service0 search0 "ustr ''test''" 3 "stamped_store None"]
    query_gating [of "service0\<lparr>chroma_connected := True\<rparr>" search0 "ustr ''test''" 3 empty_store]
    query_gating [of "service0\<lparr>chroma_connected := True,
                 rs_collection := Some \<lparr>coll_name = ustr ''utkrusht_docs'', coll_metadata = None\<rparr>\<rparr>"
      search0 "ustr ''test''" 3 "stamped_store None"]
  by (simp add: service0_def stamped_store_def)

lemma query_returns_self: "fst (snd (query search self q k s)) = self"
  by (auto simp: query_def split: option.splits sum.splits prod.splits)

lemma invoke_returns_self:
  assumes "c \<noteq> CallRefreshState"
  shows "fst (snd (invoke search c self s)) = self"
proof (cases c)
  case CallRefreshState
  with assms show ?thesis by simp
next
  case (CallQuery q k)
  obtain r self' s' where "query search self q k s = (r, self', s')"
    by (cases "query search self q k s")
  with query_returns_self [of search self q k s] CallQuery show ?thesis
    by (simp add: invoke_def split: sum.splits)
next
  case CallGetEmbeddingStatus
  then show ?thesis
    by (simp add: invoke_def get_embedding_status_def split: sum.splits)
next
  case CallCheckChromaHealth
  then show ?thesis
    by (simp add: invoke_def check_chroma_health_def split: sum.splits prod.splits)
qed (simp_all add: invoke_def)

lemma run_returns_self:
  "CallRefreshState \<notin> set cs \<Longrightarrow> fst (run search cs self s) = self"
proof (induction cs arbitrary: s)
  case Nil
  then show ?case by simp
next
  case (Cons c cs)
  obtain r self' s' where step: "invoke search c self s = (r, self', s')"
    by (cases "invoke search c self s")
  from Cons.prems invoke_returns_self [of c search self s] step have "self' = self" by auto
  with Cons step show ?case by simp
qed

lemma refresh_state_changes:
  "chroma_connected (fst (snd (invoke search0 CallRefreshState service0 empty_store))) \<noteq>
     chroma_connected service0"
  by (simp add: invoke_def refresh_state_def get_collection_def request_def empty_store_def
        service0_def)

text \<open>
  C8. No call of the interface of \<open>RAGService\<close> other than \<open>refresh_state\<close> changes the
  service object: \<open>query\<close> returns it as it received it, whether it refuses, answers or
  fails, and so do \<open>get_embedding_status\<close>, \<open>check_chroma_health\<close> and the properties,
  one call or many in a row. \<open>refresh_state\<close> does change it.
\<close>

theorem only_refresh_state_mutates:
  "fst (snd (query search self q k s)) = self \<and>
   (c \<noteq> CallRefreshState \<longrightarrow> fst (snd (invoke search c self s)) = self) \<and>
   (CallRefreshState \<notin> set cs \<longrightarrow>
      fst (run search cs self s) = self \<and>
      chroma_connected (fst (run search cs self s)) = chroma_connected self \<and>
      collection_embedding_config_id (fst (run search cs self s)) =
        collection_embedding_config_id self \<and>
      embedding_drift_detected (fst (run search cs self s)) = embedding_drift_detected self) \<and>
   chroma_connected (fst (snd (invoke search0 CallRefreshState service0 empty_store))) \<noteq>
     chroma_connected service0"
  using query_returns_self [of search self q k s] invoke_returns_self [of c search self s]
    run_returns_self [of cs search self s] refresh_state_changes
  by simp

text \<open>
  A service that is ready, with the rebuilt collection attached, is queried on the
  rebuilt store: a query that is answered, one that fails in the store, and the status
  and health calls in between leave the object as it is.
\<close>

theorem only_refresh_state_mutates_witness:
  "fst (query search0 ready_service (ustr ''test'') 1 rebuilt_store) =
     Inr \<lparr>question = ustr ''test'', ids = [ustr ''a.md''], distances = [Finite 0],
          metadatas = [Some [(ustr ''source_path'', MStr (ustr ''/app/data/docs/a.md'')),
                             (ustr ''file_name'', MStr (ustr ''a.md''))]],
          documents = [Some (ustr ''alpha'')]\<rparr> \<and>
   fst (snd (query search0 ready_service (ustr ''test'') 1 rebuilt_store)) = ready_service \<and>
   fst (query search0 ready_service (ustr ''test'') 1 (rebuilt_store\<lparr>faults := [True]\<rparr>)) =
     Inl StoreError \<and>
   fst (snd (query search0 ready_service (ustr ''test'') 1 (rebuilt_store\<lparr>faults := [True]\<rparr>))) =
     ready_service \<and>
   fst (run search0
          [CallQuery (ustr ''test'') 1, CallGetEmbeddingStatus, CallCheckChromaHealth,
           CallQuery (ustr ''other'') 20, CallIsReady]
          ready_service (rebuilt_store\<lparr>faults := [False, True]\<rparr>)) = ready_service"
proof -
  have answered: "fst (query search0 ready_service (ustr ''test'') 1 rebuilt_store) =
     Inr \<lparr>question = ustr ''test'', ids = [ustr ''a.md''], distances = [Finite 0],
          metadatas = [Some [(ustr ''source_path'', MStr (ustr ''/app/data/docs/a.md'')),
                             (ustr ''file_name'', MStr (ustr ''a.md''))]],
          documents = [Some (ustr ''alpha'')]\<rparr>"
    by (simp add: query_def is_ready_def ready_service_def service0_def collection_query_def
          request_def rebuilt_store_def search0_def docs0_def get_first_def)
  have failed: "fst (query search0 ready_service (ustr ''test'') 1
        (rebuilt_store\<lparr>faults := [True]\<rparr>)) = Inl StoreError"
    by (simp add: query_def is_ready_def ready_service_def service0_def collection_query_def
          request_def)
  from answered failed
    only_refresh_state_mutates [of search0 ready_service "ustr ''test''" 1 rebuilt_store
      CallIsReady "[]"]
    only_refresh_state_mutates [of search0 ready_service "ustr ''test''" 1
      "rebuilt_store\<lparr>faults := [True]\<rparr>" CallIsReady "[]"]
    only_refresh_state_mutates [of search0 ready_service "ustr ''test''" 1
      "rebuilt_store\<lparr>faults := [False, True]\<rparr>" CallIsReady
      "[CallQuery (ustr ''test'') 1, CallGetEmbeddingStatus, CallCheckChromaHealth,
        CallQuery (ustr ''other'') 20, CallIsReady]"]
  show ?thesis by simp
qed

subsection \<open>Refreshing the state\<close>

lemma RAGService_named_settings:
  "RAGService named_settings empty_store = (Inr named_service, empty_store\<lparr>calls := [HttpClient]\<rparr>)"
proof -
  have "ustr ''all-MiniLM-L6-v2'' \<noteq> []" "ustr ''all-MiniLM-L6-v2'' \<noteq> ustr ''default''"
    "strip (ustr ''all-MiniLM-L6-v2'') = ustr ''all-MiniLM-L6-v2''"
    by (simp_all add: ustr_def strip_def py_isspace_def)
  then show ?thesis
    by (simp add: RAGService_def http_client_def request_def empty_store_def named_service_def
          named_settings_def settings0_def normalise_model_name_def build_embedding_function_def)
qed




text \<open>
  When the store rejects the function of the service, the collection exists and the
  refresh ends in the handler of \<open>except Exception\<close> all the same.
\<close>

lemma refresh_state_conflict:
  assumes "next_call_ok s"
    and "find (\<lambda>sc. sc_name sc = chroma_collection (rs_settings self)) (collections s) = Some sc"
    and "ef_conflict (rs_embedding_function self) (sc_embedding_function sc)"
  shows "fst (refresh_state self s) = Inl ChromaConnectionError \<and>
         fst (snd (refresh_state self s)) = refresh_failed self"
  by (simp add: refresh_state_def get_collection_conflict [OF assms])




text \<open>
  C6. The store answers and has no collection of the name in the settings. Then
  \<open>refresh_state\<close> returns normally, the service is connected, has no stored fingerprint
  and no drift, and a query that follows returns the empty result.
\<close>

theorem refresh_state_missing_collection:
  assumes "next_call_ok s"
    and "find (\<lambda>sc. sc_name sc = chroma_collection (rs_settings self)) (collections s) = None"
    and "refresh_state self s = (r, self', s')"
  shows "r = Inr () \<and> chroma_connected self' \<and> collection_embedding_config_id self' = None \<and>
         \<not> embedding_drift_detected self' \<and>
         query search self' q k s' =
           (Inr \<lparr>question = q, ids = [], distances = [], metadatas = [], documents = []\<rparr>, self', s')"
  using assms(3)
  by (auto simp: refresh_state_def get_collection_missing [OF assms(1,2)] query_def is_ready_def)

theorem refresh_state_missing_collection_witness:
  "fst (refresh_state service0 empty_store) = Inr () \<and>
   fst (snd (refresh_state service0 empty_store)) = service0\<lparr>chroma_connected := True\<rparr> \<and>
   fst (query search0 (fst (snd (refresh_state service0 empty_store))) (ustr ''test'') 1
          (snd (snd (refresh_state service0 empty_store)))) =
     Inr \<lparr>question = ustr ''test'', ids = [], distances = [], metadatas = [], documents = []\<rparr>"
proof -
  have triple: "t = (fst t, fst (snd t), snd (snd t))" for t :: "'a \<times> 'b \<times> 'c"
    by simp
  have reach: "next_call_ok empty_store"
    by (simp add: next_call_ok_def empty_store_def)
  have missing: "find (\<lambda>sc. sc_name sc = chroma_collection (rs_settings service0))
      (collections empty_store) = None"
    by (simp add: empty_store_def)
  have state: "fst (snd (refresh_state service0 empty_store)) = service0\<lparr>chroma_connected := True\<rparr>"
    by (simp add: refresh_state_def get_collection_def request_def empty_store_def service0_def)
  from refresh_state_missing_collection [OF reach missing triple, of search0 "ustr ''test''" 1] state
  show ?thesis by simp
qed


subsection \<open>Rebuild\<close>

declare ingest_batches.simps [simp del]










subsection \<open>Initialisation\<close>

text \<open>
  C10. The collection named in the settings is stamped with the current fingerprint.
  Then \<open>main\<close> leaves the collections of the store as they are and sends no delete,
  create or add request, whatever else happens; and when its two requests go through
  it exits with code 0 after exactly these two. So a run that does send a delete,
  create or add request has met a missing collection, a missing stamp or another stamp.
\<close>

theorem main_stamped_no_rebuild:
  assumes "config_id (EmbeddingConfig (normalise_model_name (embedding_model_name st))
             (embedding_config_version st)) = Inr current"
    and "find (\<lambda>sc. sc_name sc = chroma_collection st) (collections s) = Some sc"
    and "stored_config_id_of (handle sc) = Some (MStr current)"
  shows "collections (snd (main st rb loaded s)) = collections s \<and>
         \<not> list_ex is_write (drop (length (calls s)) (calls (snd (main st rb loaded s)))) \<and>
         (True \<notin> set (take 2 (faults s)) \<longrightarrow>
            main st rb loaded s =
              (Inr 0, s\<lparr>faults := drop 2 (faults s),
                        calls := calls s @ [HttpClient, GetCollection (chroma_collection st)]\<rparr>))"
proof (cases "faults s")
  case Nil
  with assms show ?thesis
    by (simp add: main_def http_client_def get_collection_def request_def ef_conflict_default)
next
  case (Cons f fs)
  show ?thesis
  proof (cases fs)
    case Nil
    with Cons assms show ?thesis
      by (simp add: main_def http_client_def get_collection_def request_def ef_conflict_default)
  next
    case (Cons g gs)
    with \<open>faults s = f # fs\<close> assms show ?thesis
      by (simp add: main_def http_client_def get_collection_def request_def ef_conflict_default)
  qed
qed

theorem main_stamped_no_rebuild_witness:
  "main settings0 True (Inr docs0)
     (stamped_store (Some [(ustr ''embedding_config_id'', MStr (ustr ''57c40a235b0eb29c'')),
                           (ustr ''embedding_model_name'', MStr (ustr ''default''))])) =
   (Inr 0,
    (stamped_store (Some [(ustr ''embedding_config_id'', MStr (ustr ''57c40a235b0eb29c'')),
                          (ustr ''embedding_model_name'', MStr (ustr ''default''))]))
      \<lparr>calls := [HttpClient, GetCollection (ustr ''utkrusht_docs'')]\<rparr>)"
proof -
  let ?md = "Some [(ustr ''embedding_config_id'', MStr (ustr ''57c40a235b0eb29c'')),
                   (ustr ''embedding_model_name'', MStr (ustr ''default''))]"
  have cur: "config_id (EmbeddingConfig (normalise_model_name (embedding_model_name settings0))
             (embedding_config_version settings0)) = Inr (ustr ''57c40a235b0eb29c'')"
    by (simp add: settings0_def normalise_model_name_def config_id_default_v1)
  have found: "find (\<lambda>sc. sc_name sc = chroma_collection settings0) (collections (stamped_store ?md)) =
      Some \<lparr>sc_name = ustr ''utkrusht_docs'', sc_metadata = ?md, sc_records = [],
            sc_embedding_function = Some (ustr ''default'')\<rparr>"
    by (simp add: stamped_store_def settings0_def)
  have stamped: "stored_config_id_of
      (handle \<lparr>sc_name = ustr ''utkrusht_docs'', sc_metadata = ?md, sc_records = [],
               sc_embedding_function = Some (ustr ''default'')\<rparr>) =
      Some (MStr (ustr ''57c40a235b0eb29c''))"
    by (simp add: stored_config_id_of_def handle_def)
  from main_stamped_no_rebuild [OF cur found stamped, of True "Inr docs0"] show ?thesis
    by (simp add: stamped_store_def settings0_def)
qed

text \<open>Conversely, with a stale stamp the collection is dropped and created again.\<close>

lemma main_stale_rebuilds:
  "main settings0 True (Inr docs0) stale_store =
     (Inr 0, rebuilt_store\<lparr>calls := [HttpClient, GetCollection (ustr ''utkrusht_docs'')] @ calls rebuilt_store\<rparr>)"
proof -
  have ne: "ustr ''0000000000000000'' \<noteq> ustr ''57c40a235b0eb29c''"
    by (simp add: ustr_def)
  have cur: "config_id (EmbeddingConfig (ustr ''default'') (ustr ''v1'')) = Inr (ustr ''57c40a235b0eb29c'')"
    by (rule config_id_default_v1)
  have ids: "ustr ''a.md'' \<noteq> ustr ''b.txt''" by (simp add: ustr_def)
  show ?thesis
    by (simp add: main_def settings0_def normalise_model_name_def cur http_client_def
          get_collection_def request_def stale_store_def stamped_store_def handle_def
          stored_config_id_of_def ne rebuild_and_exit_def build_embedding_function_def
          rebuild_collection_def delete_collection_if_exists_def list_collections_def
          delete_collection_def create_collection_def ingest_batches.simps collection_add_def
          docs0_def new_records_def ids rebuilt_store_def ef_conflict_default Let_def)
qed

end
